theory Spec2Isabelle
  imports Main "HOL-Library.AList"
begin

section \<open>Relay server (shared-networking/local-server.js)\<close>

text \<open>
  The relay server keeps a \<open>Map\<close> from client ids to client objects and one module-level
  reference \<open>waitingClient\<close> to a client object. The reference aliases an object of the
  map (\<open>waitingClient.role = 'A'\<close> is seen through \<open>clients.get\<close>), and the
  \<open>error\<close> handler removes a map entry without clearing the reference, so client
  objects live in an explicit store: \<open>objs\<close> maps a reference (a number) to the object,
  \<open>nextRef\<close> is the next unused reference, \<open>clients\<close> is the map in insertion order
  (an association list from ids to references) and \<open>waitingClient\<close> is \<open>None\<close> for
  \<open>null\<close>.

  Each client object owns its WebSocket: \<open>ws_readyState\<close> is \<open>ws.readyState\<close> and
  \<open>ws_sent\<close> the messages handed to \<open>ws.send\<close>, oldest first. A reference that has
  not been allocated yet holds a placeholder object, which \<open>onConnection\<close> overwrites as
  a whole. Console output is not modelled.
\<close>

type_synonym client_id = string

type_synonym payload = string

datatype ready_state = CONNECTING | OPEN | CLOSING | CLOSED

datatype role_tag = RoleA | RoleB

text \<open>
  The JSON objects the server writes to a socket. \<open>MatchFound roomId role opponentId
  isInitiator iceServers\<close> carries the fields of \<open>matchData\<close>; a field that is
  \<open>null\<close> or \<open>undefined\<close> in the object is \<open>None\<close>.
\<close>

datatype server_msg =
    ClientIdMsg client_id
  | WaitingMsg
  | MatchFound string "role_tag option" "client_id option" "bool option" "string list"
  | SignalMsg client_id payload
  | PeerDisconnected

text \<open>The parsed messages a client sends: \<open>data.type\<close> with the field \<open>data.data\<close>.\<close>

datatype client_msg = FindMatch | Signal payload | OtherType string

text \<open>The exceptions of the JavaScript run time and of the browser's WebRTC objects.\<close>

datatype js_error = TypeError | DOMException

record client =
  ws_readyState :: ready_state
  ws_sent :: "server_msg list"
  c_id :: client_id
  c_role :: "role_tag option"
  c_isInitiator :: "bool option"
  c_opponentId :: "client_id option"

record server =
  objs :: "nat \<Rightarrow> client"
  nextRef :: nat
  clients :: "(client_id \<times> nat) list"
  waitingClient :: "nat option"

definition initial_client :: client where
  "initial_client = \<lparr>ws_readyState = CLOSED, ws_sent = [], c_id = [], c_role = None,
     c_isInitiator = None, c_opponentId = None\<rparr>"

definition initial_server :: server where
  "initial_server = \<lparr>objs = (\<lambda>_. initial_client), nextRef = 0, clients = [],
     waitingClient = None\<rparr>"

definition stun_servers :: "string list" where
  "stun_servers = [''stun:stun.l.google.com:19302'', ''stun:stun1.l.google.com:19302'']"

text \<open>\<open>ws.send(JSON.stringify(m))\<close> on the socket of the object at reference \<open>a\<close>.\<close>

definition ws_send :: "nat \<Rightarrow> server_msg \<Rightarrow> server \<Rightarrow> server" where
  "ws_send a m s = s\<lparr>objs := (objs s)(a := (objs s a)\<lparr>ws_sent := ws_sent (objs s a) @ [m]\<rparr>)\<rparr>"

text \<open>The guarded send \<open>if (c.ws.readyState === WebSocket.OPEN) c.ws.send(...)\<close>.\<close>

definition send_if_open :: "nat \<Rightarrow> server_msg \<Rightarrow> server \<Rightarrow> server" where
  "send_if_open a m s = (if ws_readyState (objs s a) = OPEN then ws_send a m s else s)"

text \<open>
  \<open>wss.on('connection')\<close>: the fresh id is the environment's choice
  (\<open>'client-' + Math.random()...\<close>), so it is a parameter; \<open>clients.set\<close> keeps the
  position of a key that is already present, as a JavaScript \<open>Map\<close> does.
\<close>

definition onConnection :: "client_id \<Rightarrow> server \<Rightarrow> server" where
  "onConnection clientId s =
     (let a = nextRef s;
          obj = \<lparr>ws_readyState = OPEN, ws_sent = [], c_id = clientId, c_role = None,
                 c_isInitiator = None, c_opponentId = None\<rparr>;
          s1 = s\<lparr>objs := (objs s)(a := obj), nextRef := Suc a,
                 clients := AList.update clientId a (clients s)\<rparr>
      in ws_send a (ClientIdMsg clientId) s1)"

text \<open>
  \<open>handleFindMatch\<close>. The result pairs the exception that escapes the function, if
  any, with the state at that point: \<open>client\<close> is \<open>undefined\<close> when the id is not in
  the map, and the first property access on it throws after the assignments before it
  have been made.
\<close>

definition handleFindMatch :: "client_id \<Rightarrow> server \<Rightarrow> js_error option \<times> server" where
  "handleFindMatch clientId s =
     (let client = map_of (clients s) clientId;
          pairing = (case waitingClient s of
                       None \<Rightarrow> None
                     | Some w \<Rightarrow> if c_id (objs s w) \<noteq> clientId then Some w else None)
      in case pairing of
           Some w \<Rightarrow>
             (let s1 = s\<lparr>objs := (objs s)(w := (objs s w)\<lparr>c_role := Some RoleA,
                            c_isInitiator := Some True, c_opponentId := Some clientId\<rparr>)\<rparr>
              in case client of
                   None \<Rightarrow> (Some TypeError, s1)
                 | Some c \<Rightarrow>
                     (let s2 = s1\<lparr>objs := (objs s1)(c := (objs s1 c)\<lparr>c_role := Some RoleB,
                                    c_isInitiator := Some False,
                                    c_opponentId := Some (c_id (objs s1 w))\<rparr>)\<rparr>;
                          matchData = MatchFound ''local-room'' (c_role (objs s2 w))
                                        (c_opponentId (objs s2 w)) (c_isInitiator (objs s2 w))
                                        stun_servers;
                          s3 = send_if_open w matchData s2;
                          matchDataB = MatchFound ''local-room'' (c_role (objs s3 c))
                                         (c_opponentId (objs s3 c)) (c_isInitiator (objs s3 c))
                                         stun_servers;
                          s4 = send_if_open c matchDataB s3
                      in (None, s4\<lparr>waitingClient := None\<rparr>)))
         | None \<Rightarrow>
             (let s1 = s\<lparr>waitingClient := client\<rparr>
              in case client of
                   None \<Rightarrow> (Some TypeError, s1)
                 | Some c \<Rightarrow> (None, send_if_open c WaitingMsg s1)))"

text \<open>
  \<open>handleSignal\<close>: \<open>!client.opponentId\<close> is true for \<open>undefined\<close> and for the empty
  string; the opponent is the first object of the map, in insertion order, whose id is
  the recorded opponent id.
\<close>

definition handleSignal :: "client_id \<Rightarrow> payload \<Rightarrow> server \<Rightarrow> server" where
  "handleSignal clientId d s =
     (case map_of (clients s) clientId of
        None \<Rightarrow> s
      | Some c \<Rightarrow>
          (case c_opponentId (objs s c) of
             None \<Rightarrow> s
           | Some oid \<Rightarrow>
               if oid = [] then s
               else (case List.find (\<lambda>a. c_id (objs s a) = oid) (map snd (clients s)) of
                       None \<Rightarrow> s
                     | Some opp \<Rightarrow>
                         if ws_readyState (objs s opp) \<noteq> OPEN then s
                         else ws_send opp (SignalMsg clientId d) s)))"

definition handleMessage :: "client_id \<Rightarrow> client_msg \<Rightarrow> server \<Rightarrow> js_error option \<times> server" where
  "handleMessage clientId data s =
     (case map_of (clients s) clientId of
        None \<Rightarrow> (None, s)
      | Some c \<Rightarrow>
          (case data of
             FindMatch \<Rightarrow> handleFindMatch clientId s
           | Signal d \<Rightarrow> (None, handleSignal clientId d s)
           | OtherType t \<Rightarrow> (None, s)))"

text \<open>
  \<open>ws.on('message')\<close>: \<open>None\<close> is a message \<open>JSON.parse\<close> rejects. The handler's
  \<open>try/catch\<close> swallows every exception and keeps the state reached.
\<close>

definition onMessage :: "client_id \<Rightarrow> client_msg option \<Rightarrow> server \<Rightarrow> server" where
  "onMessage clientId raw s =
     (case raw of None \<Rightarrow> s | Some data \<Rightarrow> snd (handleMessage clientId data s))"

text \<open>
  \<open>ws.on('close')\<close>, for the connection whose id is \<open>clientId\<close>, in the handler's
  three parts: the waiting slot is cleared when the waiting object has this id; when the
  object registered under the id has a role, the first object of the map (in insertion
  order) with the other role is sent \<open>peer-disconnected\<close> if its socket is open; the
  map entry is deleted.
\<close>

definition clearWaiting :: "client_id \<Rightarrow> server \<Rightarrow> server" where
  "clearWaiting clientId s =
     (case waitingClient s of
        None \<Rightarrow> s
      | Some w \<Rightarrow> if c_id (objs s w) = clientId then s\<lparr>waitingClient := None\<rparr> else s)"

definition notifyOther :: "client_id \<Rightarrow> server \<Rightarrow> server" where
  "notifyOther clientId s =
     (case map_of (clients s) clientId of
        None \<Rightarrow> s
      | Some c \<Rightarrow>
          (case c_role (objs s c) of
             None \<Rightarrow> s
           | Some r \<Rightarrow>
               (let otherClientId = (if r = RoleA then RoleB else RoleA)
                in case List.find (\<lambda>a. c_role (objs s a) = Some otherClientId)
                          (map snd (clients s)) of
                     None \<Rightarrow> s
                   | Some otherClient \<Rightarrow> send_if_open otherClient PeerDisconnected s)))"

definition onClose :: "client_id \<Rightarrow> server \<Rightarrow> server" where
  "onClose clientId s =
     (let s1 = clearWaiting clientId s;
          s2 = notifyOther clientId s1
      in s2\<lparr>clients := AList.delete clientId (clients s2)\<rparr>)"

text \<open>\<open>ws.on('error')\<close>.\<close>

definition onError :: "client_id \<Rightarrow> server \<Rightarrow> server" where
  "onError clientId s = s\<lparr>clients := AList.delete clientId (clients s)\<rparr>"

text \<open>
  The events of the server's single thread. \<open>SocketState a st\<close> is the network changing
  \<open>readyState\<close> of the socket of object \<open>a\<close> (a close handshake that has begun, a
  socket that has closed); the other events run the handler of that name.
\<close>

datatype event =
    Connection client_id
  | Message client_id "client_msg option"
  | Close client_id
  | Error client_id
  | SocketState nat ready_state

fun step :: "event \<Rightarrow> server \<Rightarrow> server" where
  "step (Connection i) s = onConnection i s"
| "step (Message i raw) s = onMessage i raw s"
| "step (Close i) s = onClose i s"
| "step (Error i) s = onError i s"
| "step (SocketState a st) s = s\<lparr>objs := (objs s)(a := (objs s a)\<lparr>ws_readyState := st\<rparr>)\<rparr>"

definition run :: "event list \<Rightarrow> server \<Rightarrow> server" where
  "run evs s = foldl (\<lambda>t e. step e t) s evs"

text \<open>
  The \<open>match-found\<close> message of a completed pairing, and a client object written out
  field by field; both only abbreviate terms of the statements below.
\<close>

definition match_found :: "role_tag \<Rightarrow> client_id \<Rightarrow> bool \<Rightarrow> server_msg" where
  "match_found r opp ini = MatchFound ''local-room'' (Some r) (Some opp) (Some ini) stun_servers"

definition client_obj ::
  "ready_state \<Rightarrow> server_msg list \<Rightarrow> client_id \<Rightarrow> role_tag option \<Rightarrow> bool option \<Rightarrow>
   client_id option \<Rightarrow> client" where
  "client_obj st ms i r ini opp =
     \<lparr>ws_readyState = st, ws_sent = ms, c_id = i, c_role = r, c_isInitiator = ini,
      c_opponentId = opp\<rparr>"

text \<open>
  What every reachable server state satisfies: a map entry's key is the id of the object
  it refers to, references in the map are allocated, and no object records its own id as
  its opponent.
\<close>

definition server_inv :: "server \<Rightarrow> bool" where
  "server_inv s \<longleftrightarrow>
     (\<forall>k a. (k, a) \<in> set (clients s) \<longrightarrow> c_id (objs s a) = k \<and> a < nextRef s) \<and>
     (\<forall>a. c_opponentId (objs s a) \<noteq> Some (c_id (objs s a)))"

text \<open>Server states used as concrete inputs, each given by the events that reach it.\<close>

definition one_waiting :: "client_id \<Rightarrow> server" where
  "one_waiting p1 = run [Connection p1, Message p1 (Some FindMatch)] initial_server"

definition one_pair :: "client_id \<Rightarrow> client_id \<Rightarrow> server" where
  "one_pair p1 p2 = run [Connection p2, Message p2 (Some FindMatch)] (one_waiting p1)"

definition pair_and_waiting :: "client_id \<Rightarrow> client_id \<Rightarrow> client_id \<Rightarrow> server" where
  "pair_and_waiting p1 p2 p3 = run [Connection p3, Message p3 (Some FindMatch)] (one_pair p1 p2)"

definition two_pairs :: "client_id \<Rightarrow> client_id \<Rightarrow> client_id \<Rightarrow> client_id \<Rightarrow> server" where
  "two_pairs p1 p2 p3 p4 =
     run [Connection p4, Message p4 (Some FindMatch)] (pair_and_waiting p1 p2 p3)"

definition waiter_and_caller :: server where
  "waiter_and_caller = run [Connection ''client-b''] (one_waiting ''client-a'')"

definition closing_waiter :: server where
  "closing_waiter =
     run [SocketState 0 CLOSING, Connection ''client-b''] (one_waiting ''client-a'')"

section \<open>Negotiation session (shared-networking/LocalGameConnection.js)\<close>

text \<open>
  A session drives the browser's \<open>RTCPeerConnection\<close> and its two data channels. The
  browser objects are modelled by what the session reads of them and by a trace:
  \<^item> \<open>peer_connection\<close>: the remote and local description (\<open>None\<close> while unset),
    whether \<open>signalingState\<close> is \<open>'closed'\<close>, and the candidates \<open>addIceCandidate\<close>
    accepted;
  \<^item> \<open>data_channel\<close>: label, \<open>readyState\<close>, and the payloads handed to \<open>send\<close>;
  \<^item> \<open>calls\<close>: every call the session makes to \<open>createOffer\<close>, \<open>createAnswer\<close>,
    \<open>setLocalDescription\<close>, \<open>setRemoteDescription\<close>, \<open>addIceCandidate\<close> and
    \<open>socket.emit\<close>, in order, whether it succeeded or not;
  \<^item> \<open>emitted\<close>: the events given to \<open>eventEmitter.emit\<close>, in order.
  Whether a call succeeds is the browser's choice: \<open>browser\<close> holds one outcome per kind
  of call (\<open>None\<close> or \<open>False\<close>: the call throws or its promise rejects). Session
  descriptions and candidates are opaque strings. An \<open>async\<close> method is one step: it runs
  to its end before another handler starts. The fields \<open>roomId\<close>, \<open>iceServers\<close> and
  \<open>opponentUid\<close> (a copy of \<open>opponentId\<close> added to payloads as \<open>targetUid\<close>) and
  console output are left out.
\<close>

type_synonym sdp = string

type_synonym candidate = string

datatype channel_state = Connecting | Open | Closing | Closed

record data_channel =
  label :: string
  readyState :: channel_state
  ch_sent :: "payload list"

record peer_connection =
  remoteDescription :: "sdp option"
  localDescription :: "sdp option"
  pc_closed :: bool
  iceCandidates :: "candidate list"

text \<open>The payloads of \<open>socket.emit\<close>: the blob and the \<open>to\<close> field.\<close>

datatype signal =
    OfferSignal sdp "string option"
  | AnswerSignal sdp "string option"
  | IceCandidateSignal candidate "string option"

datatype api_call =
    CreateOffer
  | CreateAnswer
  | SetLocalDescription sdp
  | SetRemoteDescription sdp
  | AddIceCandidate candidate
  | SocketEmit signal

datatype game_event =
    GameConnectionEstablished
  | GameConnectionLost
  | GameDatachannelOpen
  | GameDataReceived payload string

record browser =
  createOffer_result :: "sdp option"
  createAnswer_result :: "sdp option"
  setLocalDescription_ok :: "sdp \<Rightarrow> bool"
  setRemoteDescription_ok :: "sdp \<Rightarrow> bool"
  addIceCandidate_ok :: "candidate \<Rightarrow> bool"
  emit_ok :: "signal \<Rightarrow> bool"
  channelSend_error :: "payload \<Rightarrow> js_error option"

record connection =
  peerConnection :: "peer_connection option"
  reliable :: "data_channel option"
  unreliable :: "data_channel option"
  isConnected :: bool
  isInitiator :: bool
  opponentId :: "string option"
  pendingRemoteCandidates :: "candidate list"
  calls :: "api_call list"
  emitted :: "game_event list"

text \<open>The constructor.\<close>

definition new_connection :: connection where
  "new_connection = \<lparr>peerConnection = None, reliable = None, unreliable = None,
     isConnected = False, isInitiator = False, opponentId = None,
     pendingRemoteCandidates = [], calls = [], emitted = []\<rparr>"

definition record_call :: "api_call \<Rightarrow> connection \<Rightarrow> connection" where
  "record_call x c = c\<lparr>calls := calls c @ [x]\<rparr>"

text \<open>
  The calls on \<open>this.peerConnection\<close> and \<open>this.socket\<close>. Each returns the exception
  it throws, if any, with the session as the call leaves it; a call on a
  \<open>peerConnection\<close> that is \<open>null\<close> throws a \<open>TypeError\<close> before anything happens.
\<close>

definition pc_createOffer :: "browser \<Rightarrow> connection \<Rightarrow> (js_error + sdp) \<times> connection" where
  "pc_createOffer env c =
     (case peerConnection c of
        None \<Rightarrow> (Inl TypeError, c)
      | Some pc \<Rightarrow>
          (case createOffer_result env of
             None \<Rightarrow> (Inl DOMException, record_call CreateOffer c)
           | Some offer \<Rightarrow> (Inr offer, record_call CreateOffer c)))"

definition pc_createAnswer :: "browser \<Rightarrow> connection \<Rightarrow> (js_error + sdp) \<times> connection" where
  "pc_createAnswer env c =
     (case peerConnection c of
        None \<Rightarrow> (Inl TypeError, c)
      | Some pc \<Rightarrow>
          (case createAnswer_result env of
             None \<Rightarrow> (Inl DOMException, record_call CreateAnswer c)
           | Some answer \<Rightarrow> (Inr answer, record_call CreateAnswer c)))"

definition pc_setLocalDescription ::
  "browser \<Rightarrow> sdp \<Rightarrow> connection \<Rightarrow> js_error option \<times> connection" where
  "pc_setLocalDescription env d c =
     (case peerConnection c of
        None \<Rightarrow> (Some TypeError, c)
      | Some pc \<Rightarrow>
          if setLocalDescription_ok env d
          then (None, (record_call (SetLocalDescription d) c)
                        \<lparr>peerConnection := Some (pc\<lparr>localDescription := Some d\<rparr>)\<rparr>)
          else (Some DOMException, record_call (SetLocalDescription d) c))"

definition pc_setRemoteDescription ::
  "browser \<Rightarrow> sdp \<Rightarrow> connection \<Rightarrow> js_error option \<times> connection" where
  "pc_setRemoteDescription env d c =
     (case peerConnection c of
        None \<Rightarrow> (Some TypeError, c)
      | Some pc \<Rightarrow>
          if setRemoteDescription_ok env d
          then (None, (record_call (SetRemoteDescription d) c)
                        \<lparr>peerConnection := Some (pc\<lparr>remoteDescription := Some d\<rparr>)\<rparr>)
          else (Some DOMException, record_call (SetRemoteDescription d) c))"

definition pc_addIceCandidate ::
  "browser \<Rightarrow> candidate \<Rightarrow> connection \<Rightarrow> js_error option \<times> connection" where
  "pc_addIceCandidate env x c =
     (case peerConnection c of
        None \<Rightarrow> (Some TypeError, c)
      | Some pc \<Rightarrow>
          if addIceCandidate_ok env x
          then (None, (record_call (AddIceCandidate x) c)
                        \<lparr>peerConnection := Some (pc\<lparr>iceCandidates := iceCandidates pc @ [x]\<rparr>)\<rparr>)
          else (Some DOMException, record_call (AddIceCandidate x) c))"

definition socket_emit :: "browser \<Rightarrow> signal \<Rightarrow> connection \<Rightarrow> js_error option \<times> connection" where
  "socket_emit env m c =
     (if emit_ok env m then (None, record_call (SocketEmit m) c)
      else (Some DOMException, record_call (SocketEmit m) c))"

text \<open>
  \<open>try { ... } catch (err) { console.error(...) }\<close>: whatever the block threw, the
  method returns normally with the session as the block left it.
\<close>

definition try_catch :: "js_error option \<times> connection \<Rightarrow> js_error option \<times> connection" where
  "try_catch r = (None, snd r)"

text \<open>
  \<open>flushPendingRemoteCandidates\<close>: the \<open>while\<close> loop shifts the head of the queue and
  applies it inside its own \<open>try/catch\<close>, until the queue is empty.
\<close>

function flushLoop :: "browser \<Rightarrow> connection \<Rightarrow> connection" where
  "flushLoop env c =
     (case pendingRemoteCandidates c of
        [] \<Rightarrow> c
      | x # xs \<Rightarrow>
          flushLoop env (snd (try_catch
            (pc_addIceCandidate env x (c\<lparr>pendingRemoteCandidates := xs\<rparr>)))))"
  by pat_completeness auto
termination
  by (relation "measure (\<lambda>(env, c). length (pendingRemoteCandidates c))")
     (auto simp: try_catch_def pc_addIceCandidate_def record_call_def split: option.splits)

declare flushLoop.simps [simp del]

definition flushPendingRemoteCandidates :: "browser \<Rightarrow> connection \<Rightarrow> connection" where
  "flushPendingRemoteCandidates env c =
     (case peerConnection c of
        None \<Rightarrow> c
      | Some pc \<Rightarrow>
          (case remoteDescription pc of
             None \<Rightarrow> c
           | Some d \<Rightarrow> flushLoop env c))"

text \<open>\<open>createAndSendOffer\<close>: the whole body is inside \<open>try\<close>.\<close>

definition createAndSendOffer :: "browser \<Rightarrow> connection \<Rightarrow> js_error option \<times> connection" where
  "createAndSendOffer env c =
     try_catch
       (case pc_createOffer env c of
          (Inl e, c1) \<Rightarrow> (Some e, c1)
        | (Inr offer, c1) \<Rightarrow>
            (case pc_setLocalDescription env offer c1 of
               (Some e, c2) \<Rightarrow> (Some e, c2)
             | (None, c2) \<Rightarrow> socket_emit env (OfferSignal offer (opponentId c2)) c2))"

text \<open>
  \<open>handleOffer\<close>: the check for a missing peer connection returns before the \<open>try\<close>;
  the flush comes last in the block, after the answer has been produced and emitted.
\<close>

definition handleOffer :: "browser \<Rightarrow> sdp \<Rightarrow> connection \<Rightarrow> js_error option \<times> connection" where
  "handleOffer env offer c =
     (case peerConnection c of
        None \<Rightarrow> (None, c)
      | Some pc \<Rightarrow>
          try_catch
            (case pc_setRemoteDescription env offer c of
               (Some e, c1) \<Rightarrow> (Some e, c1)
             | (None, c1) \<Rightarrow>
                 (case pc_createAnswer env c1 of
                    (Inl e, c2) \<Rightarrow> (Some e, c2)
                  | (Inr answer, c2) \<Rightarrow>
                      (case pc_setLocalDescription env answer c2 of
                         (Some e, c3) \<Rightarrow> (Some e, c3)
                       | (None, c3) \<Rightarrow>
                           (case socket_emit env (AnswerSignal answer (opponentId c3)) c3 of
                              (Some e, c4) \<Rightarrow> (Some e, c4)
                            | (None, c4) \<Rightarrow> (None, flushPendingRemoteCandidates env c4))))))"

definition handleAnswer :: "browser \<Rightarrow> sdp \<Rightarrow> connection \<Rightarrow> js_error option \<times> connection" where
  "handleAnswer env answer c =
     try_catch
       (case pc_setRemoteDescription env answer c of
          (Some e, c1) \<Rightarrow> (Some e, c1)
        | (None, c1) \<Rightarrow> (None, flushPendingRemoteCandidates env c1))"

text \<open>
  \<open>handleCandidate\<close>: dropped when there is no peer connection or it is closed, queued
  while there is no remote description, applied otherwise.
\<close>

definition handleCandidate ::
  "browser \<Rightarrow> candidate \<Rightarrow> connection \<Rightarrow> js_error option \<times> connection" where
  "handleCandidate env x c =
     try_catch
       (case peerConnection c of
          None \<Rightarrow> (None, c)
        | Some pc \<Rightarrow>
            if pc_closed pc then (None, c)
            else (case remoteDescription pc of
                    None \<Rightarrow> (None, c\<lparr>pendingRemoteCandidates := pendingRemoteCandidates c @ [x]\<rparr>)
                  | Some d \<Rightarrow> pc_addIceCandidate env x c))"

text \<open>The candidates \<open>xs\<close> arriving one after the other.\<close>

fun handleCandidates :: "browser \<Rightarrow> candidate list \<Rightarrow> connection \<Rightarrow> connection" where
  "handleCandidates env [] c = c"
| "handleCandidates env (x # xs) c = handleCandidates env xs (snd (handleCandidate env x c))"

text \<open>
  \<open>RTCDataChannel.send\<close> throws on a channel that is not open, and on an open channel
  when the browser refuses the payload (a \<open>TypeError\<close> for a payload larger than the
  channel's maximum message size, an \<open>OperationError\<close> when the send buffer is full):
  \<open>channelSend_error\<close> is the exception the browser throws for a payload, if any, and a
  payload it refuses is not sent. \<open>RTCDataChannel.close\<close> does nothing on a channel that
  is closing or closed and otherwise starts closing it; \<open>RTCPeerConnection.close\<close> does
  nothing on a closed connection and otherwise closes it together with its data
  channels, firing no event; neither of the two throws. The channels of a session's
  peer connection are the two the session holds.
\<close>

definition channel_send ::
  "browser \<Rightarrow> payload \<Rightarrow> data_channel \<Rightarrow> js_error + data_channel" where
  "channel_send env d ch =
     (if readyState ch \<noteq> Open then Inl DOMException
      else case channelSend_error env d of
             Some e \<Rightarrow> Inl e
           | None \<Rightarrow> Inr (ch\<lparr>ch_sent := ch_sent ch @ [d]\<rparr>))"

definition channel_close :: "data_channel \<Rightarrow> data_channel" where
  "channel_close ch =
     (if readyState ch = Closing \<or> readyState ch = Closed then ch
      else ch\<lparr>readyState := Closing\<rparr>)"

definition pc_close :: "connection \<Rightarrow> connection" where
  "pc_close c =
     (case peerConnection c of
        None \<Rightarrow> c
      | Some pc \<Rightarrow>
          if pc_closed pc then c
          else c\<lparr>peerConnection := Some (pc\<lparr>pc_closed := True\<rparr>),
                 reliable := map_option (\<lambda>ch. ch\<lparr>readyState := Closed\<rparr>) (reliable c),
                 unreliable := map_option (\<lambda>ch. ch\<lparr>readyState := Closed\<rparr>) (unreliable c)\<rparr>)"

text \<open>
  \<open>send(data, reliable = true)\<close>: the result is the exception thrown or the value
  returned, with the session after the call. The call of \<open>channel.send(data)\<close> is not
  inside a \<open>try\<close>: what it throws leaves \<open>send\<close>.
\<close>

definition send ::
  "browser \<Rightarrow> payload \<Rightarrow> bool \<Rightarrow> connection \<Rightarrow> (js_error + bool) \<times> connection" where
  "send env d rel c =
     (let channel = (if rel then reliable c else unreliable c)
      in case channel of
           None \<Rightarrow> (Inr False, c)
         | Some ch \<Rightarrow>
             if readyState ch = Open
             then (case channel_send env d ch of
                     Inl e \<Rightarrow> (Inl e, c)
                   | Inr ch' \<Rightarrow>
                       (Inr True, if rel then c\<lparr>reliable := Some ch'\<rparr>
                                  else c\<lparr>unreliable := Some ch'\<rparr>))
             else (Inr False, c))"

text \<open>\<open>close()\<close>: each of the three objects is closed only if the field is not \<open>null\<close>.\<close>

definition close :: "connection \<Rightarrow> js_error option \<times> connection" where
  "close c =
     (let c1 = (case reliable c of
                  None \<Rightarrow> c
                | Some ch \<Rightarrow> c\<lparr>reliable := Some (channel_close ch)\<rparr>);
          c2 = (case unreliable c1 of
                  None \<Rightarrow> c1
                | Some ch \<Rightarrow> c1\<lparr>unreliable := Some (channel_close ch)\<rparr>);
          c3 = (case peerConnection c2 of
                  None \<Rightarrow> c2
                | Some pc \<Rightarrow> pc_close c2)
      in (None, c3\<lparr>isConnected := False\<rparr>))"

text \<open>
  \<open>initialize(config)\<close> with \<open>createPeerConnection\<close>: an existing peer connection is
  closed and replaced by a new one; the initiator creates its two channels and starts
  \<open>createAndSendOffer\<close>, the responder only registers the \<open>ondatachannel\<close> handler.
\<close>

definition createDataChannels :: "connection \<Rightarrow> connection" where
  "createDataChannels c =
     c\<lparr>reliable := Some \<lparr>label = ''game_reliable'', readyState = Connecting, ch_sent = []\<rparr>,
       unreliable := Some \<lparr>label = ''game_unreliable'', readyState = Connecting, ch_sent = []\<rparr>\<rparr>"

definition createPeerConnection :: "browser \<Rightarrow> connection \<Rightarrow> connection" where
  "createPeerConnection env c =
     (let c1 = (case peerConnection c of
                  None \<Rightarrow> c
                | Some pc \<Rightarrow> (pc_close c)\<lparr>peerConnection := None\<rparr>);
          c2 = c1\<lparr>peerConnection := Some \<lparr>remoteDescription = None, localDescription = None,
                                           pc_closed = False, iceCandidates = []\<rparr>\<rparr>
      in if isInitiator c2 then snd (createAndSendOffer env (createDataChannels c2)) else c2)"

definition initialize :: "browser \<Rightarrow> bool \<Rightarrow> string option \<Rightarrow> connection \<Rightarrow> connection" where
  "initialize env config_isInitiator config_opponentId c =
     createPeerConnection env
       (c\<lparr>isInitiator := config_isInitiator, opponentId := config_opponentId,
          pendingRemoteCandidates := []\<rparr>)"

text \<open>
  The browser's events. \<open>ondatachannel\<close> (responder) stores an incoming channel under its
  well-known label; a channel's \<open>onopen\<close>, \<open>onmessage\<close> and \<open>onclose\<close> and the peer
  connection's \<open>onconnectionstatechange\<close> update \<open>isConnected\<close> and emit the session's
  events.
\<close>

definition onDataChannel :: "data_channel \<Rightarrow> connection \<Rightarrow> connection" where
  "onDataChannel ch c =
     (if label ch = ''game_reliable'' then c\<lparr>reliable := Some ch\<rparr>
      else if label ch = ''game_unreliable'' then c\<lparr>unreliable := Some ch\<rparr>
      else c)"

definition onChannelOpen :: "string \<Rightarrow> connection \<Rightarrow> connection" where
  "onChannelOpen l c =
     (if l = ''game_reliable''
      then c\<lparr>isConnected := True, emitted := emitted c @ [GameDatachannelOpen]\<rparr>
      else c)"

definition onChannelMessage :: "string \<Rightarrow> payload \<Rightarrow> connection \<Rightarrow> connection" where
  "onChannelMessage l d c = c\<lparr>emitted := emitted c @ [GameDataReceived d l]\<rparr>"

definition onChannelClose :: "string \<Rightarrow> connection \<Rightarrow> connection" where
  "onChannelClose l c = (if l = ''game_reliable'' then c\<lparr>isConnected := False\<rparr> else c)"

datatype connection_state = StNew | StConnecting | StConnected | StDisconnected | StFailed | StClosed

definition onConnectionStateChange :: "connection_state \<Rightarrow> connection \<Rightarrow> connection" where
  "onConnectionStateChange st c =
     (if st = StConnected
      then c\<lparr>isConnected := True, emitted := emitted c @ [GameConnectionEstablished]\<rparr>
      else if st = StDisconnected \<or> st = StFailed
      then c\<lparr>isConnected := False, emitted := emitted c @ [GameConnectionLost]\<rparr>
      else c)"

text \<open>
  A browser in which every call succeeds, one in which \<open>createAnswer\<close> fails, one
  whose data channels refuse every payload because their send buffer is full, and three
  sessions used as concrete inputs: a responder and an initiator right after
  \<open>initialize\<close>, and the initiator once its reliable channel has opened.
\<close>

definition browser_ok :: browser where
  "browser_ok = \<lparr>createOffer_result = Some ''offer-sdp'', createAnswer_result = Some ''answer-sdp'',
     setLocalDescription_ok = (\<lambda>_. True), setRemoteDescription_ok = (\<lambda>_. True),
     addIceCandidate_ok = (\<lambda>_. True), emit_ok = (\<lambda>_. True),
     channelSend_error = (\<lambda>_. None)\<rparr>"

definition browser_no_answer :: browser where
  "browser_no_answer = browser_ok\<lparr>createAnswer_result := None\<rparr>"

definition browser_buffer_full :: browser where
  "browser_buffer_full = browser_ok\<lparr>channelSend_error := (\<lambda>_. Some DOMException)\<rparr>"

definition responder_session :: connection where
  "responder_session = initialize browser_ok False (Some ''peer-a'') new_connection"

definition initiator_session :: connection where
  "initiator_session = initialize browser_ok True (Some ''peer-b'') new_connection"

definition open_session :: connection where
  "open_session =
     onChannelOpen ''game_reliable''
       (initiator_session\<lparr>reliable :=
          Some \<lparr>label = ''game_reliable'', readyState = Open, ch_sent = []\<rparr>\<rparr>)"

section \<open>Network managers (LocalNetworkManager.js, WebSocketNetworkManager.js)\<close>

text \<open>
  Both managers keep the same fields. \<open>gameConnection\<close> is \<open>None\<close> for \<open>null\<close>;
  \<open>pendingOffer\<close> holds the offer of a buffered \<open>offer\<close> message; \<open>scene_events\<close> are
  the events given to \<open>scene.events.emit\<close>. The two timers of the broadcast-medium
  manager are flags: \<open>verifyScheduled\<close> is the pending \<open>setTimeout\<close> of \<open>becomeHost\<close>,
  \<open>hostPolling\<close> the running \<open>setInterval\<close> of \<open>startHostPolling\<close>. The signals a
  session emits stay in that session's call trace.
\<close>

datatype scene_event =
    MatchFoundEvent string "role_tag option" "string option" bool
  | Queued
  | ConnectionFailed

record manager =
  peerId :: string
  m_role :: "role_tag option"
  m_opponentId :: "string option"
  m_isInitiator :: bool
  isSignalingConnected :: bool
  matchmakingComplete :: bool
  gameConnection :: "connection option"
  pendingOffer :: "sdp option"
  pendingCandidates :: "candidate list"
  verifyScheduled :: bool
  hostPolling :: bool
  scene_events :: "scene_event list"

definition new_manager :: "string \<Rightarrow> manager" where
  "new_manager p = \<lparr>peerId = p, m_role = None, m_opponentId = None, m_isInitiator = False,
     isSignalingConnected = False, matchmakingComplete = False, gameConnection = None,
     pendingOffer = None, pendingCandidates = [], verifyScheduled = False,
     hostPolling = False, scene_events = []\<rparr>"

text \<open>
  The body of a signaling message: \<open>type\<close> with the offer, answer or candidate it
  carries (\<open>toPeer\<close> for the two matchmaking messages).
\<close>

datatype sig_body =
    JoinRequest string
  | JoinAccept string
  | Offer sdp
  | Answer sdp
  | IceCandidate candidate
  | OtherBody string

text \<open>\<open>!this.opponentId\<close>: true for \<open>null\<close> and for the empty string.\<close>

definition no_opponent :: "string option \<Rightarrow> bool" where
  "no_opponent v \<longleftrightarrow> v = None \<or> v = Some []"

text \<open>
  \<open>initializeGameConnection\<close> and \<open>connectToGame\<close>, the same in both managers: an
  existing session is closed and replaced by a new, initialized one; then the buffered
  offer is replayed unless this side is the initiator (\<open>replayOffer\<close>, the first block
  under "Process pending messages"), and the buffered candidates are replayed in order
  (\<open>replayCandidates\<close>, the second block).
\<close>

definition initializeGameConnection :: "browser \<Rightarrow> manager \<Rightarrow> manager" where
  "initializeGameConnection env m =
     (let m1 = (case gameConnection m of
                  None \<Rightarrow> m
                | Some g \<Rightarrow> m\<lparr>gameConnection := None\<rparr>)
      in m1\<lparr>gameConnection :=
             Some (initialize env (m_isInitiator m1) (m_opponentId m1) new_connection)\<rparr>)"

definition replayOffer :: "browser \<Rightarrow> manager \<Rightarrow> manager" where
  "replayOffer env m =
     (case pendingOffer m of
        None \<Rightarrow> m
      | Some d \<Rightarrow>
          if m_isInitiator m then m
          else m\<lparr>gameConnection := map_option (\<lambda>g. snd (handleOffer env d g)) (gameConnection m),
                 pendingOffer := None\<rparr>)"

definition replayCandidates :: "browser \<Rightarrow> manager \<Rightarrow> manager" where
  "replayCandidates env m =
     (if pendingCandidates m = [] then m
      else m\<lparr>gameConnection :=
                map_option (handleCandidates env (pendingCandidates m)) (gameConnection m),
             pendingCandidates := []\<rparr>)"

definition connectToGame :: "browser \<Rightarrow> manager \<Rightarrow> manager" where
  "connectToGame env m =
     (if no_opponent (m_opponentId m) then m
      else if (case gameConnection m of None \<Rightarrow> False | Some g \<Rightarrow> isConnected g) then m
      else replayCandidates env (replayOffer env (initializeGameConnection env m)))"

text \<open>
  The cases \<open>'offer'\<close>, \<open>'answer'\<close> and \<open>'ice-candidate'\<close> of
  \<open>handleSignalingMessage\<close>, the same in both managers (\<open>handleSessionSignal\<close>). The
  relay-server manager reads the type from \<open>message.data\<close> and returns at once when that
  is missing; it has no other case.
\<close>

definition handleSessionSignal :: "browser \<Rightarrow> sig_body \<Rightarrow> manager \<Rightarrow> manager" where
  "handleSessionSignal env b m =
     (case b of
        Offer d \<Rightarrow>
          (case gameConnection m of
             Some g \<Rightarrow> m\<lparr>gameConnection := Some (snd (handleOffer env d g))\<rparr>
           | None \<Rightarrow> m\<lparr>pendingOffer := Some d\<rparr>)
      | Answer d \<Rightarrow>
          (case gameConnection m of
             Some g \<Rightarrow> m\<lparr>gameConnection := Some (snd (handleAnswer env d g))\<rparr>
           | None \<Rightarrow> m)
      | IceCandidate x \<Rightarrow>
          (case gameConnection m of
             Some g \<Rightarrow> m\<lparr>gameConnection := Some (snd (handleCandidate env x g))\<rparr>
           | None \<Rightarrow> m\<lparr>pendingCandidates := pendingCandidates m @ [x]\<rparr>)
      | _ \<Rightarrow> m)"

definition ws_handleSignalingMessage :: "browser \<Rightarrow> sig_body option \<Rightarrow> manager \<Rightarrow> manager" where
  "ws_handleSignalingMessage env data m =
     (case data of None \<Rightarrow> m | Some b \<Rightarrow> handleSessionSignal env b m)"

text \<open>\<open>handleMatchFound\<close> of the relay-server manager.\<close>

definition handleMatchFound ::
  "browser \<Rightarrow> role_tag option \<Rightarrow> string option \<Rightarrow> bool \<Rightarrow> manager \<Rightarrow> manager" where
  "handleMatchFound env r opp ini m =
     (let m1 = m\<lparr>m_role := r, m_opponentId := opp, m_isInitiator := ini,
                 matchmakingComplete := True\<rparr>;
          m2 = m1\<lparr>scene_events := scene_events m1 @
                 [MatchFoundEvent ''local-room'' (m_role m1) (m_opponentId m1) (m_isInitiator m1)]\<rparr>
      in connectToGame env m2)"

section \<open>Broadcast-medium matchmaker (LocalNetworkManager.js)\<close>

text \<open>
  The shared \<open>localStorage\<close>: \<open>peers\<close> is the list under \<open>'local-game-peers'\<close> (a missing
  key reads as the empty list) and \<open>signaling\<close> lists every value written under
  \<open>'local-game-signaling'\<close>, oldest first. A registration's \<open>lookingForMatch\<close> is
  \<open>None\<close> where the entry has no such field (guest entries). A method of a tab is one
  step on the pair of the storage and that tab's manager; \<open>now\<close> is \<open>Date.now()\<close>, read
  once per step.
\<close>

record peer_entry =
  p_id :: string
  p_active :: bool
  p_timestamp :: int
  p_role :: role_tag
  p_lookingForMatch :: "bool option"
  p_matchedWith :: "string option"

record stored_msg =
  sm_body :: sig_body
  sm_fromPeer :: string
  sm_targetPeer :: "string option"
  sm_timestamp :: int

record storage =
  peers :: "peer_entry list"
  signaling :: "stored_msg list"

definition empty_storage :: storage where
  "empty_storage = \<lparr>peers = [], signaling = []\<rparr>"

definition host_entry :: "string \<Rightarrow> int \<Rightarrow> peer_entry" where
  "host_entry p t = \<lparr>p_id = p, p_active = True, p_timestamp = t, p_role = RoleA,
     p_lookingForMatch = Some True, p_matchedWith = None\<rparr>"

definition guest_entry :: "string \<Rightarrow> int \<Rightarrow> string \<Rightarrow> peer_entry" where
  "guest_entry p t h = \<lparr>p_id = p, p_active = True, p_timestamp = t, p_role = RoleB,
     p_lookingForMatch = None, p_matchedWith = Some h\<rparr>"

text \<open>\<open>peers.filter(p => p.active && (now - p.timestamp) < 10000)\<close>.\<close>

definition activePeers :: "int \<Rightarrow> peer_entry list \<Rightarrow> peer_entry list" where
  "activePeers now ps = filter (\<lambda>p. p_active p \<and> now - p_timestamp p < 10000) ps"

text \<open>
  \<open>emitSignalingMessage\<close>: the message is stamped with the sender, with the sender's
  current \<open>opponentId\<close> as \<open>targetPeer\<close> and with the time, and written to the shared key.
\<close>

definition emitSignalingMessage ::
  "int \<Rightarrow> sig_body \<Rightarrow> storage \<times> manager \<Rightarrow> storage \<times> manager" where
  "emitSignalingMessage now b sm =
     (case sm of (st, m) \<Rightarrow>
        (st\<lparr>signaling := signaling st @
              [\<lparr>sm_body = b, sm_fromPeer = peerId m, sm_targetPeer = m_opponentId m,
                sm_timestamp = now\<rparr>]\<rparr>, m))"

definition becomeHost :: "int \<Rightarrow> storage \<times> manager \<Rightarrow> storage \<times> manager" where
  "becomeHost now sm =
     (case sm of (st, m) \<Rightarrow>
        (st\<lparr>peers := peers st @ [host_entry (peerId m) now]\<rparr>,
         m\<lparr>verifyScheduled := True, m_role := Some RoleA, m_isInitiator := True,
           isSignalingConnected := True\<rparr>))"

definition joinAsGuest :: "int \<Rightarrow> peer_entry \<Rightarrow> storage \<times> manager \<Rightarrow> storage \<times> manager" where
  "joinAsGuest now host sm =
     (case sm of (st, m) \<Rightarrow>
        emitSignalingMessage now (JoinRequest (p_id host))
          (st\<lparr>peers := peers st @ [guest_entry (peerId m) now (p_id host)]\<rparr>,
           m\<lparr>m_role := Some RoleB, m_isInitiator := False, m_opponentId := Some (p_id host),
             isSignalingConnected := True\<rparr>))"

definition switchToGuest :: "int \<Rightarrow> peer_entry \<Rightarrow> storage \<times> manager \<Rightarrow> storage \<times> manager" where
  "switchToGuest now host sm =
     (case sm of (st, m) \<Rightarrow>
        emitSignalingMessage now (JoinRequest (p_id host))
          (st\<lparr>peers := filter (\<lambda>p. p_id p \<noteq> peerId m) (peers st) @
                          [guest_entry (peerId m) now (p_id host)]\<rparr>,
           m\<lparr>m_role := Some RoleB, m_isInitiator := False, m_opponentId := Some (p_id host)\<rparr>))"

text \<open>
  \<open>verifyHostStatus\<close>: \<open>allHosts.sort((a, b) => a.timestamp - b.timestamp)\<close> is a stable
  sort by timestamp, as \<open>sort_key\<close> is; \<open>allHosts[0]\<close> is read only when the list has more
  than one element.
\<close>

definition verifyHostStatus :: "int \<Rightarrow> storage \<times> manager \<Rightarrow> storage \<times> manager" where
  "verifyHostStatus now sm =
     (case sm of (st, m) \<Rightarrow>
        (let allHosts = filter (\<lambda>p. p_role p = RoleA \<and> p_lookingForMatch p = Some True)
                          (activePeers now (peers st));
             earliestHost = hd (sort_key p_timestamp allHosts)
         in if length allHosts > 1 \<and> p_id earliestHost \<noteq> peerId m
            then switchToGuest now earliestHost (st, m)
            else (st, m\<lparr>hostPolling := True\<rparr>)))"


definition tryRegisterAsHost ::
  "int \<Rightarrow> peer_entry list \<Rightarrow> storage \<times> manager \<Rightarrow> storage \<times> manager" where
  "tryRegisterAsHost now active sm =
     (case List.find (\<lambda>p. p_role p = RoleA \<and> p_lookingForMatch p = Some True) active of
        Some existingHost \<Rightarrow> joinAsGuest now existingHost sm
      | None \<Rightarrow> becomeHost now sm)"

definition electLeader :: "int \<Rightarrow> storage \<times> manager \<Rightarrow> storage \<times> manager" where
  "electLeader now sm =
     (case sm of (st, m) \<Rightarrow>
        (let active = activePeers now (peers st)
         in case List.find (\<lambda>p. p_id p = peerId m) active of
              Some existingPeer \<Rightarrow>
                (st, m\<lparr>m_role := Some (p_role existingPeer),
                       m_isInitiator := (p_role existingPeer = RoleA),
                       isSignalingConnected := True\<rparr>)
            | None \<Rightarrow> tryRegisterAsHost now active (st, m)))"

definition findMatch :: "int \<Rightarrow> storage \<times> manager \<Rightarrow> storage \<times> manager" where
  "findMatch now sm =
     (case sm of (st, m) \<Rightarrow>
        if \<not> isSignalingConnected m \<or>
           (\<not> matchmakingComplete m \<and> no_opponent (m_opponentId m))
        then electLeader now (st, m)
        else (st, m))"

text \<open>
  \<open>updatePeerStatus\<close> rewrites the first registration with this tab's id, if there is
  one; \<open>emitMatchFound\<close> reports the match to the game.
\<close>

fun updateFirst :: "('a \<Rightarrow> bool) \<Rightarrow> ('a \<Rightarrow> 'a) \<Rightarrow> 'a list \<Rightarrow> 'a list" where
  "updateFirst P f [] = []"
| "updateFirst P f (x # xs) = (if P x then f x # xs else x # updateFirst P f xs)"

definition updatePeerStatus :: "int \<Rightarrow> bool \<Rightarrow> storage \<times> manager \<Rightarrow> storage \<times> manager" where
  "updatePeerStatus now looking sm =
     (case sm of (st, m) \<Rightarrow>
        (st\<lparr>peers := updateFirst (\<lambda>p. p_id p = peerId m)
                        (\<lambda>p. p\<lparr>p_lookingForMatch := Some looking, p_timestamp := now\<rparr>)
                        (peers st)\<rparr>, m))"

definition emitMatchFound :: "manager \<Rightarrow> manager" where
  "emitMatchFound m =
     m\<lparr>scene_events := scene_events m @
         [MatchFoundEvent ''local-room'' (m_role m) (m_opponentId m) (m_isInitiator m)]\<rparr>"

text \<open>
  \<open>handleSignalingMessage\<close> of the broadcast-medium manager. A \<open>join-request\<close> is
  accepted only by a tab with role A, no opponent and matchmaking not complete; a
  \<open>join-accept\<close> only by a tab with role B, from its recorded opponent, matchmaking not
  complete.
\<close>

definition handleSignalingMessage ::
  "browser \<Rightarrow> int \<Rightarrow> stored_msg \<Rightarrow> storage \<times> manager \<Rightarrow> storage \<times> manager" where
  "handleSignalingMessage env now message sm =
     (case sm of (st, m) \<Rightarrow>
        (case sm_body message of
           JoinRequest toPeer \<Rightarrow>
             if m_role m = Some RoleA \<and> no_opponent (m_opponentId m) \<and> \<not> matchmakingComplete m
             then (let m1 = m\<lparr>m_opponentId := Some (sm_fromPeer message),
                               matchmakingComplete := True\<rparr>;
                       sm2 = updatePeerStatus now False (st, m1);
                       sm3 = emitSignalingMessage now (JoinAccept (sm_fromPeer message)) sm2
                   in (fst sm3, connectToGame env (emitMatchFound (snd sm3))))
             else (st, m)
         | JoinAccept toPeer \<Rightarrow>
             if m_role m = Some RoleB \<and> Some (sm_fromPeer message) = m_opponentId m \<and>
                \<not> matchmakingComplete m
             then (st, connectToGame env (emitMatchFound (m\<lparr>matchmakingComplete := True\<rparr>)))
             else (st, m)
         | b \<Rightarrow> (st, handleSessionSignal env b m)))"

text \<open>The \<open>storage\<close> listener: only messages addressed to this tab are handled.\<close>

definition onStorage ::
  "browser \<Rightarrow> int \<Rightarrow> stored_msg \<Rightarrow> storage \<times> manager \<Rightarrow> storage \<times> manager" where
  "onStorage env now message sm =
     (if sm_targetPeer message = Some (peerId (snd sm))
      then handleSignalingMessage env now message sm else sm)"




definition fireVerify :: "int \<Rightarrow> storage \<times> manager \<Rightarrow> storage \<times> manager" where
  "fireVerify now sm =
     (if verifyScheduled (snd sm)
      then verifyHostStatus now (fst sm, (snd sm)\<lparr>verifyScheduled := False\<rparr>)
      else sm)"

















definition waiting_host :: "storage \<times> manager" where
  "waiting_host = fireVerify 1100 (becomeHost 1000 (empty_storage, new_manager ''peer-a''))"

definition join_request_from :: "string \<Rightarrow> int \<Rightarrow> stored_msg" where
  "join_request_from p t =
     \<lparr>sm_body = JoinRequest ''peer-a'', sm_fromPeer = p, sm_targetPeer = Some ''peer-a'',
      sm_timestamp = t\<rparr>"

definition matched_host :: "storage \<times> manager" where
  "matched_host =
     handleSignalingMessage browser_ok 1200 (join_request_from ''peer-b'' 1190) waiting_host"

definition guest_tab :: manager where
  "guest_tab = snd (findMatch 1150 (fst waiting_host, new_manager ''peer-b''))"

definition buffered_guest :: manager where
  "buffered_guest =
     handleSessionSignal browser_ok (Answer ''answer-x'')
       (handleSessionSignal browser_ok (IceCandidate ''c2'')
          (handleSessionSignal browser_ok (IceCandidate ''c1'')
             (handleSessionSignal browser_ok (Offer ''offer-sdp'') guest_tab)))"

definition host_with_offer :: "storage \<times> manager" where
  "host_with_offer =
     handleSignalingMessage browser_ok 1200 (join_request_from ''peer-b'' 1190)
       (fst waiting_host, handleSessionSignal browser_ok (Offer ''offer-x'') (snd waiting_host))"



section \<open>Properties of the relay server\<close>

lemma run_Nil: "run [] s = s"
  by (simp add: run_def)

lemma run_Cons: "run (e # es) s = run es (step e s)"
  by (simp add: run_def)

lemma run_append: "run (xs @ ys) s = run ys (run xs s)"
  by (simp add: run_def)

lemmas server_defs = onConnection_def onMessage_def handleMessage_def handleFindMatch_def
  ws_send_def send_if_open_def onClose_def match_found_def client_obj_def

lemma one_waiting_eq:
  "one_waiting p1 =
     \<lparr>objs = (\<lambda>_. initial_client)(0 := client_obj OPEN [ClientIdMsg p1, WaitingMsg] p1 None None None),
      nextRef = 1, clients = [(p1, 0)], waitingClient = Some 0\<rparr>"
  by (simp add: one_waiting_def run_Cons run_Nil initial_server_def server_defs Let_def fun_eq_iff)

lemma one_pair_eq:
  "p1 \<noteq> p2 \<Longrightarrow> one_pair p1 p2 =
     \<lparr>objs = (\<lambda>_. initial_client)
        (0 := client_obj OPEN [ClientIdMsg p1, WaitingMsg, match_found RoleA p2 True] p1
                (Some RoleA) (Some True) (Some p2),
         1 := client_obj OPEN [ClientIdMsg p2, match_found RoleB p1 False] p2
                (Some RoleB) (Some False) (Some p1)),
      nextRef = 2, clients = [(p1, 0), (p2, 1)], waitingClient = None\<rparr>"
  by (simp add: one_pair_def one_waiting_eq run_Cons run_Nil server_defs Let_def fun_eq_iff)

lemma pair_and_waiting_eq:
  "distinct [p1, p2, p3] \<Longrightarrow> pair_and_waiting p1 p2 p3 =
     \<lparr>objs = (\<lambda>_. initial_client)
        (0 := client_obj OPEN [ClientIdMsg p1, WaitingMsg, match_found RoleA p2 True] p1
                (Some RoleA) (Some True) (Some p2),
         1 := client_obj OPEN [ClientIdMsg p2, match_found RoleB p1 False] p2
                (Some RoleB) (Some False) (Some p1),
         2 := client_obj OPEN [ClientIdMsg p3, WaitingMsg] p3 None None None),
      nextRef = 3, clients = [(p1, 0), (p2, 1), (p3, 2)], waitingClient = Some 2\<rparr>"
proof -
  assume "distinct [p1, p2, p3]"
  then have d: "p1 \<noteq> p2" "p3 \<noteq> p1" "p3 \<noteq> p2" by auto
  show ?thesis
    using d by (simp add: pair_and_waiting_def one_pair_eq run_Cons run_Nil server_defs Let_def fun_eq_iff)
qed

lemma two_pairs_eq:
  "distinct [p1, p2, p3, p4] \<Longrightarrow> two_pairs p1 p2 p3 p4 =
     \<lparr>objs = (\<lambda>_. initial_client)
        (0 := client_obj OPEN [ClientIdMsg p1, WaitingMsg, match_found RoleA p2 True] p1
                (Some RoleA) (Some True) (Some p2),
         1 := client_obj OPEN [ClientIdMsg p2, match_found RoleB p1 False] p2
                (Some RoleB) (Some False) (Some p1),
         2 := client_obj OPEN [ClientIdMsg p3, WaitingMsg, match_found RoleA p4 True] p3
                (Some RoleA) (Some True) (Some p4),
         3 := client_obj OPEN [ClientIdMsg p4, match_found RoleB p3 False] p4
                (Some RoleB) (Some False) (Some p3)),
      nextRef = 4, clients = [(p1, 0), (p2, 1), (p3, 2), (p4, 3)], waitingClient = None\<rparr>"
proof -
  assume a: "distinct [p1, p2, p3, p4]"
  then have d: "p4 \<noteq> p1" "p4 \<noteq> p2" "p4 \<noteq> p3" "p3 \<noteq> p4" and d3: "distinct [p1, p2, p3]" by auto
  show ?thesis
    using d by (simp add: two_pairs_def pair_and_waiting_eq [OF d3] run_Cons run_Nil server_defs Let_def fun_eq_iff)
qed

lemma closing_waiter_eq:
  "closing_waiter =
     \<lparr>objs = (\<lambda>_. initial_client)
        (0 := client_obj CLOSING [ClientIdMsg ''client-a'', WaitingMsg] ''client-a'' None None None,
         1 := client_obj OPEN [ClientIdMsg ''client-b''] ''client-b'' None None None),
      nextRef = 2, clients = [(''client-a'', 0), (''client-b'', 1)], waitingClient = Some 0\<rparr>"
  by (simp add: closing_waiter_def one_waiting_eq run_Cons run_Nil server_defs Let_def fun_eq_iff)


lemma set_update_subset:
  "(k, a) \<in> set (AList.update k' v al) \<Longrightarrow> (k, a) = (k', v) \<or> (k, a) \<in> set al"
  by (induction al) (auto split: if_splits)

lemma set_delete_subset: "set (AList.delete k' al) \<subseteq> set al"
  by (induction al) (auto split: if_splits)

lemma ws_send_frame:
  "c_id (objs (ws_send a m s) b) = c_id (objs s b)"
  "c_opponentId (objs (ws_send a m s) b) = c_opponentId (objs s b)"
  "clients (ws_send a m s) = clients s"
  "nextRef (ws_send a m s) = nextRef s"
  "waitingClient (ws_send a m s) = waitingClient s"
  by (simp_all add: ws_send_def)

lemma send_if_open_frame:
  "c_id (objs (send_if_open a m s) b) = c_id (objs s b)"
  "c_opponentId (objs (send_if_open a m s) b) = c_opponentId (objs s b)"
  "clients (send_if_open a m s) = clients s"
  "nextRef (send_if_open a m s) = nextRef s"
  "waitingClient (send_if_open a m s) = waitingClient s"
  by (simp_all add: send_if_open_def ws_send_frame)

lemma server_inv_frame:
  assumes "server_inv s"
    and "\<And>a. c_id (objs t a) = c_id (objs s a)"
    and "\<And>a. c_opponentId (objs t a) = c_opponentId (objs s a)"
    and "set (clients t) \<subseteq> set (clients s)"
    and "nextRef s \<le> nextRef t"
  shows "server_inv t"
  using assms unfolding server_inv_def by (metis in_mono less_le_trans)

lemma inv_onConnection:
  assumes "server_inv s"
  shows "server_inv (onConnection i s)"
proof -
  have fresh: "a \<noteq> nextRef s" if "(k, a) \<in> set (clients s)" for k a
    using assms that by (auto simp: server_inv_def)
  have entries: "c_id (objs (onConnection i s) a) = k \<and> a < nextRef (onConnection i s)"
    if "(k, a) \<in> set (clients (onConnection i s))" for k a
  proof -
    from that have "(k, a) = (i, nextRef s) \<or> (k, a) \<in> set (clients s)"
      using set_update_subset [of k a i "nextRef s" "clients s"]
      by (simp add: onConnection_def Let_def ws_send_frame)
    then show ?thesis
    proof
      assume "(k, a) = (i, nextRef s)"
      then show ?thesis by (simp add: onConnection_def Let_def ws_send_def)
    next
      assume in_old: "(k, a) \<in> set (clients s)"
      with assms have "c_id (objs s a) = k" "a < nextRef s"
        by (auto simp: server_inv_def)
      with fresh [OF in_old] show ?thesis
        by (simp add: onConnection_def Let_def ws_send_def)
    qed
  qed
  have opp: "c_opponentId (objs (onConnection i s) a) \<noteq> Some (c_id (objs (onConnection i s) a))"
    for a
    using assms by (simp add: onConnection_def Let_def ws_send_def server_inv_def)
  from entries opp show ?thesis
    unfolding server_inv_def by blast
qed

lemma inv_handleSignal: "server_inv s \<Longrightarrow> server_inv (handleSignal i d s)"
  by (erule server_inv_frame)
     (simp_all add: handleSignal_def ws_send_frame split: option.splits)

lemma clearWaiting_frame:
  "objs (clearWaiting i s) = objs s"
  "nextRef (clearWaiting i s) = nextRef s"
  "clients (clearWaiting i s) = clients s"
  by (simp_all add: clearWaiting_def split: option.splits)

lemma notifyOther_frame:
  "c_id (objs (notifyOther i s) a) = c_id (objs s a)"
  "c_opponentId (objs (notifyOther i s) a) = c_opponentId (objs s a)"
  "nextRef (notifyOther i s) = nextRef s"
  "clients (notifyOther i s) = clients s"
  "waitingClient (notifyOther i s) = waitingClient s"
  by (simp_all add: notifyOther_def Let_def send_if_open_frame split: option.splits)

lemma onClose_frame:
  "c_id (objs (onClose i s) a) = c_id (objs s a)"
  "c_opponentId (objs (onClose i s) a) = c_opponentId (objs s a)"
  "nextRef (onClose i s) = nextRef s"
  "clients (onClose i s) = AList.delete i (clients s)"
  by (simp_all add: onClose_def Let_def notifyOther_frame clearWaiting_frame)

lemma inv_onClose: "server_inv s \<Longrightarrow> server_inv (onClose i s)"
  by (erule server_inv_frame) (simp_all add: onClose_frame set_delete_subset)

lemma inv_onError: "server_inv s \<Longrightarrow> server_inv (onError i s)"
  by (erule server_inv_frame) (simp_all add: onError_def set_delete_subset)


lemma handleFindMatch_pair:
  assumes "map_of (clients s) cid = Some c" and "c_id (objs s c) = cid"
    and "waitingClient s = Some w" and "c_id (objs s w) \<noteq> cid"
  shows "handleFindMatch cid s =
     (None, s\<lparr>objs := (objs s)
        (w := (objs s w)\<lparr>c_role := Some RoleA, c_isInitiator := Some True,
                 c_opponentId := Some cid,
                 ws_sent := ws_sent (objs s w) @
                   (if ws_readyState (objs s w) = OPEN then [match_found RoleA cid True] else [])\<rparr>,
         c := (objs s c)\<lparr>c_role := Some RoleB, c_isInitiator := Some False,
                 c_opponentId := Some (c_id (objs s w)),
                 ws_sent := ws_sent (objs s c) @
                   (if ws_readyState (objs s c) = OPEN
                    then [match_found RoleB (c_id (objs s w)) False] else [])\<rparr>),
        waitingClient := None\<rparr>)"
proof -
  from assms have "w \<noteq> c" by auto
  with assms show ?thesis
    by (simp add: handleFindMatch_def Let_def send_if_open_def ws_send_def match_found_def
        fun_upd_twist)
qed

lemma handleFindMatch_wait:
  assumes "map_of (clients s) cid = Some c"
    and "waitingClient s = None \<or> (\<exists>w. waitingClient s = Some w \<and> c_id (objs s w) = cid)"
  shows "handleFindMatch cid s =
     (None, s\<lparr>objs := (objs s)
        (c := (objs s c)\<lparr>ws_sent := ws_sent (objs s c) @
                   (if ws_readyState (objs s c) = OPEN then [WaitingMsg] else [])\<rparr>),
        waitingClient := Some c\<rparr>)"
  using assms
  by (auto simp add: handleFindMatch_def Let_def send_if_open_def ws_send_def)

lemma handleFindMatch_unknown:
  assumes "map_of (clients s) cid = None"
  shows "snd (handleFindMatch cid s) = s\<lparr>waitingClient := None\<rparr> \<or>
     (\<exists>w. c_id (objs s w) \<noteq> cid \<and>
        snd (handleFindMatch cid s) =
          s\<lparr>objs := (objs s)(w := (objs s w)\<lparr>c_role := Some RoleA,
               c_isInitiator := Some True, c_opponentId := Some cid\<rparr>)\<rparr>)"
  using assms
  by (cases "waitingClient s") (auto simp add: handleFindMatch_def Let_def)

lemma inv_handleFindMatch:
  assumes "server_inv s"
  shows "server_inv (snd (handleFindMatch i s))"
proof (cases "map_of (clients s) i")
  case None
  from handleFindMatch_unknown [OF None] show ?thesis
  proof
    assume "snd (handleFindMatch i s) = s\<lparr>waitingClient := None\<rparr>"
    with assms show ?thesis by (simp add: server_inv_def)
  next
    assume "\<exists>w. c_id (objs s w) \<noteq> i \<and>
        snd (handleFindMatch i s) =
          s\<lparr>objs := (objs s)(w := (objs s w)\<lparr>c_role := Some RoleA,
               c_isInitiator := Some True, c_opponentId := Some i\<rparr>)\<rparr>"
    then obtain w where "c_id (objs s w) \<noteq> i"
      and "snd (handleFindMatch i s) =
          s\<lparr>objs := (objs s)(w := (objs s w)\<lparr>c_role := Some RoleA,
               c_isInitiator := Some True, c_opponentId := Some i\<rparr>)\<rparr>"
      by blast
    with assms show ?thesis by (auto simp add: server_inv_def)
  qed
next
  case (Some c)
  with assms have idc: "c_id (objs s c) = i"
    by (auto simp: server_inv_def dest: map_of_SomeD)
  show ?thesis
  proof (cases "\<exists>w. waitingClient s = Some w \<and> c_id (objs s w) \<noteq> i")
    case True
    then obtain w where w: "waitingClient s = Some w" "c_id (objs s w) \<noteq> i" by blast
    from w idc have "w \<noteq> c" by auto
    with assms idc w show ?thesis
      by (auto simp add: handleFindMatch_pair [OF Some idc w] server_inv_def)
  next
    case False
    then have "waitingClient s = None \<or> (\<exists>w. waitingClient s = Some w \<and> c_id (objs s w) = i)"
      by (cases "waitingClient s") auto
    with assms show ?thesis
      by (auto simp add: handleFindMatch_wait [OF Some] server_inv_def)
  qed
qed

lemma inv_initial: "server_inv initial_server"
  by (simp add: server_inv_def initial_server_def initial_client_def)

lemma inv_onMessage: "server_inv s \<Longrightarrow> server_inv (onMessage i raw s)"
  unfolding onMessage_def handleMessage_def
  by (simp add: inv_handleFindMatch inv_handleSignal split: option.splits client_msg.splits)

lemma inv_step: "server_inv s \<Longrightarrow> server_inv (step e s)"
proof (cases e)
  case (SocketState a st)
  assume "server_inv s"
  with SocketState show ?thesis by (simp add: server_inv_def)
qed (simp_all add: inv_onConnection inv_onMessage inv_onClose inv_onError)

lemma inv_run: "server_inv s \<Longrightarrow> server_inv (run evs s)"
  unfolding run_def by (induction evs arbitrary: s) (simp_all add: inv_step)

lemma waiter_and_caller_eq:
  "waiter_and_caller =
     \<lparr>objs = (\<lambda>_. initial_client)
        (0 := client_obj OPEN [ClientIdMsg ''client-a'', WaitingMsg] ''client-a'' None None None,
         1 := client_obj OPEN [ClientIdMsg ''client-b''] ''client-b'' None None None),
      nextRef = 2, clients = [(''client-a'', 0), (''client-b'', 1)], waitingClient = Some 0\<rparr>"
  by (simp add: waiter_and_caller_def one_waiting_eq run_Cons run_Nil server_defs Let_def
      fun_eq_iff)

lemma fifo_scenario:
  assumes "distinct [p1, p2, p3, p4]"
  shows "waitingClient (one_pair p1 p2) = None \<and>
        waitingClient (pair_and_waiting p1 p2 p3) = Some 2 \<and>
        objs (pair_and_waiting p1 p2 p3) 2 =
          client_obj OPEN [ClientIdMsg p3, WaitingMsg] p3 None None None \<and>
        waitingClient (two_pairs p1 p2 p3 p4) = None \<and>
        objs (two_pairs p1 p2 p3 p4) 2 =
          client_obj OPEN [ClientIdMsg p3, WaitingMsg, match_found RoleA p4 True] p3
            (Some RoleA) (Some True) (Some p4) \<and>
        objs (two_pairs p1 p2 p3 p4) 3 =
          client_obj OPEN [ClientIdMsg p4, match_found RoleB p3 False] p4
            (Some RoleB) (Some False) (Some p3) \<and>
        objs (two_pairs p1 p2 p3 p4) 0 = objs (one_pair p1 p2) 0 \<and>
        objs (two_pairs p1 p2 p3 p4) 1 = objs (one_pair p1 p2) 1"
proof -
  from assms have d2: "p1 \<noteq> p2" and d3: "distinct [p1, p2, p3]" by auto
  show ?thesis
    by (simp add: one_pair_eq [OF d2] pair_and_waiting_eq [OF d3] two_pairs_eq [OF assms])
qed

subsection \<open>Claim C3: find-match pairs the caller with the waiting connection\<close>

text \<open>
  Claim C3, as the code has it. Let \<open>cid\<close> be the id of a registered client whose
  object \<open>c\<close> carries that id. If another connection \<open>w\<close> occupies the waiting slot,
  \<open>handleFindMatch\<close> returns normally, makes \<open>w\<close> the initiator (role A, opponent
  \<open>cid\<close>) and the caller the responder (role B, opponent the id of \<open>w\<close>), clears the
  waiting slot, and hands each of the two its \<open>match-found\<close> message (complementary
  roles, the other's id) provided that client's own socket is open; nothing else changes.
  If nobody is waiting, the caller becomes the waiting connection and is sent
  \<open>waiting\<close>, again provided its socket is open. For four distinct arrivals P1 to P4:
  once P1 and P2 are paired the slot is empty, P3 becomes the waiting connection (object
  2, sent \<open>waiting\<close>), and P4 is paired with P3 while P1 and P2 stay as they were.
\<close>

theorem findMatch_pairs_waiting_with_caller:
  assumes "map_of (clients s) cid = Some c" and "c_id (objs s c) = cid"
  shows "(\<forall>w. waitingClient s = Some w \<and> c_id (objs s w) \<noteq> cid \<longrightarrow>
       handleFindMatch cid s =
         (None, s\<lparr>objs := (objs s)
            (w := (objs s w)\<lparr>c_role := Some RoleA, c_isInitiator := Some True,
                     c_opponentId := Some cid,
                     ws_sent := ws_sent (objs s w) @
                       (if ws_readyState (objs s w) = OPEN
                        then [match_found RoleA cid True] else [])\<rparr>,
             c := (objs s c)\<lparr>c_role := Some RoleB, c_isInitiator := Some False,
                     c_opponentId := Some (c_id (objs s w)),
                     ws_sent := ws_sent (objs s c) @
                       (if ws_readyState (objs s c) = OPEN
                        then [match_found RoleB (c_id (objs s w)) False] else [])\<rparr>),
            waitingClient := None\<rparr>)) \<and>
     (waitingClient s = None \<longrightarrow>
       handleFindMatch cid s =
         (None, s\<lparr>objs := (objs s)
            (c := (objs s c)\<lparr>ws_sent := ws_sent (objs s c) @
                       (if ws_readyState (objs s c) = OPEN then [WaitingMsg] else [])\<rparr>),
            waitingClient := Some c\<rparr>)) \<and>
     (\<forall>p1 p2 p3 p4. distinct [p1, p2, p3, p4] \<longrightarrow>
        waitingClient (one_pair p1 p2) = None \<and>
        waitingClient (pair_and_waiting p1 p2 p3) = Some 2 \<and>
        objs (pair_and_waiting p1 p2 p3) 2 =
          client_obj OPEN [ClientIdMsg p3, WaitingMsg] p3 None None None \<and>
        waitingClient (two_pairs p1 p2 p3 p4) = None \<and>
        objs (two_pairs p1 p2 p3 p4) 2 =
          client_obj OPEN [ClientIdMsg p3, WaitingMsg, match_found RoleA p4 True] p3
            (Some RoleA) (Some True) (Some p4) \<and>
        objs (two_pairs p1 p2 p3 p4) 3 =
          client_obj OPEN [ClientIdMsg p4, match_found RoleB p3 False] p4
            (Some RoleB) (Some False) (Some p3) \<and>
        objs (two_pairs p1 p2 p3 p4) 0 = objs (one_pair p1 p2) 0 \<and>
        objs (two_pairs p1 p2 p3 p4) 1 = objs (one_pair p1 p2) 1)"
    (is "?pairs \<and> ?waits \<and> ?fifo")
proof -
  have a: ?pairs
    using assms by (intro allI impI) (simp add: handleFindMatch_pair)
  have b: ?waits
    using assms by (intro impI) (simp add: handleFindMatch_wait)
  have c: ?fifo
    by (intro allI impI) (rule fifo_scenario)
  from a b c show ?thesis by (intro conjI)
qed

text \<open>
  Witness for C3: the theorem at the state where client-a waits and client-b has
  connected (pairing branch), at the state where client-a has just connected (waiting
  branch), and at four concrete arrivals.
\<close>

theorem findMatch_pairs_waiting_with_caller_witness:
  "handleFindMatch ''client-b'' waiter_and_caller =
     (None, \<lparr>objs = (\<lambda>_. initial_client)
        (0 := client_obj OPEN
                [ClientIdMsg ''client-a'', WaitingMsg, match_found RoleA ''client-b'' True]
                ''client-a'' (Some RoleA) (Some True) (Some ''client-b''),
         1 := client_obj OPEN [ClientIdMsg ''client-b'', match_found RoleB ''client-a'' False]
                ''client-b'' (Some RoleB) (Some False) (Some ''client-a'')),
      nextRef = 2, clients = [(''client-a'', 0), (''client-b'', 1)], waitingClient = None\<rparr>) \<and>
   handleFindMatch ''client-a'' (onConnection ''client-a'' initial_server) =
     (None, one_waiting ''client-a'') \<and>
   waitingClient (pair_and_waiting ''client-a'' ''client-b'' ''client-c'') = Some 2 \<and>
   waitingClient (two_pairs ''client-a'' ''client-b'' ''client-c'' ''client-d'') = None"
proof -
  have h1: "map_of (clients waiter_and_caller) ''client-b'' = Some 1"
    and h2: "c_id (objs waiter_and_caller 1) = ''client-b''"
    by (simp_all add: waiter_and_caller_eq client_obj_def)
  have h3: "map_of (clients (onConnection ''client-a'' initial_server)) ''client-a'' = Some 0"
    and h4: "c_id (objs (onConnection ''client-a'' initial_server) 0) = ''client-a''"
    by (simp_all add: onConnection_def initial_server_def ws_send_def Let_def)
  have d: "distinct [''client-a'', ''client-b'', ''client-c'', ''client-d'']" by simp
  from findMatch_pairs_waiting_with_caller [OF h1 h2]
  have a: "handleFindMatch ''client-b'' waiter_and_caller =
     (None, \<lparr>objs = (\<lambda>_. initial_client)
        (0 := client_obj OPEN
                [ClientIdMsg ''client-a'', WaitingMsg, match_found RoleA ''client-b'' True]
                ''client-a'' (Some RoleA) (Some True) (Some ''client-b''),
         1 := client_obj OPEN [ClientIdMsg ''client-b'', match_found RoleB ''client-a'' False]
                ''client-b'' (Some RoleB) (Some False) (Some ''client-a'')),
      nextRef = 2, clients = [(''client-a'', 0), (''client-b'', 1)], waitingClient = None\<rparr>)"
    by (simp add: waiter_and_caller_eq client_obj_def fun_eq_iff)
  from findMatch_pairs_waiting_with_caller [OF h3 h4]
  have b: "handleFindMatch ''client-a'' (onConnection ''client-a'' initial_server) =
     (None, one_waiting ''client-a'')"
    by (simp add: one_waiting_eq onConnection_def initial_server_def ws_send_def Let_def
        client_obj_def fun_eq_iff)
  from findMatch_pairs_waiting_with_caller [OF h1 h2] d
  have c: "waitingClient (pair_and_waiting ''client-a'' ''client-b'' ''client-c'') = Some 2 \<and>
     waitingClient (two_pairs ''client-a'' ''client-b'' ''client-c'' ''client-d'') = None"
    by blast
  from a b c show ?thesis by (intro conjI) simp_all
qed

text \<open>
  Counterexample to C3 as stated ("both receive a match-found message"): client-a
  waits and its socket has begun closing when client-b calls find-match. The two are
  paired (roles A and B, the slot is cleared), but the guard on \<open>readyState\<close> skips the
  send to client-a, whose socket has received only its id and the earlier \<open>waiting\<close>.
\<close>

theorem findMatch_closing_waiter_gets_no_message:
  "waitingClient closing_waiter = Some 0 \<and>
   c_id (objs closing_waiter 0) = ''client-a'' \<and>
   ws_readyState (objs closing_waiter 0) = CLOSING \<and>
   map_of (clients closing_waiter) ''client-b'' = Some 1 \<and>
   fst (handleFindMatch ''client-b'' closing_waiter) = None \<and>
   c_role (objs (snd (handleFindMatch ''client-b'' closing_waiter)) 0) = Some RoleA \<and>
   c_opponentId (objs (snd (handleFindMatch ''client-b'' closing_waiter)) 0) = Some ''client-b'' \<and>
   c_role (objs (snd (handleFindMatch ''client-b'' closing_waiter)) 1) = Some RoleB \<and>
   waitingClient (snd (handleFindMatch ''client-b'' closing_waiter)) = None \<and>
   ws_sent (objs (snd (handleFindMatch ''client-b'' closing_waiter)) 0) =
     [ClientIdMsg ''client-a'', WaitingMsg]"
  by (simp add: closing_waiter_eq handleFindMatch_def send_if_open_def ws_send_def Let_def
      client_obj_def)

subsection \<open>Claim C9: the relay server never pairs a client with itself\<close>

text \<open>
  Claim C9. In every state the server reaches from its initial state, by any sequence of
  connections, messages, closes, errors and socket state changes, no client object records
  its own id as its opponent; every map entry's key is the id of its object, so no
  registered client has its own key as opponent either. If the client that holds the
  waiting slot calls find-match again (over its open socket), the call returns normally
  and changes nothing but that client's socket, which is sent another \<open>waiting\<close>: the
  client stays the waiting one, with no role and no opponent assigned.
\<close>

theorem relay_never_pairs_client_with_itself:
  "(\<forall>evs a. c_opponentId (objs (run evs initial_server) a) \<noteq>
       Some (c_id (objs (run evs initial_server) a))) \<and>
   (\<forall>evs k a. (k, a) \<in> set (clients (run evs initial_server)) \<longrightarrow>
       c_id (objs (run evs initial_server) a) = k \<and>
       c_opponentId (objs (run evs initial_server) a) \<noteq> Some k) \<and>
   (\<forall>s cid w. waitingClient s = Some w \<and> map_of (clients s) cid = Some w \<and>
       c_id (objs s w) = cid \<and> ws_readyState (objs s w) = OPEN \<longrightarrow>
       handleFindMatch cid s =
         (None, s\<lparr>objs := (objs s)
            (w := (objs s w)\<lparr>ws_sent := ws_sent (objs s w) @ [WaitingMsg]\<rparr>)\<rparr>))"
    (is "?opp \<and> ?keys \<and> ?again")
proof -
  have inv: "server_inv (run evs initial_server)" for evs
    by (rule inv_run) (rule inv_initial)
  have a: ?opp
    using inv by (simp add: server_inv_def)
  have b: ?keys
    using inv unfolding server_inv_def by metis
  have c: ?again
  proof (intro allI impI)
    fix s :: server and cid :: client_id and w :: nat
    assume h: "waitingClient s = Some w \<and> map_of (clients s) cid = Some w \<and>
       c_id (objs s w) = cid \<and> ws_readyState (objs s w) = OPEN"
    then have "handleFindMatch cid s =
       (None, s\<lparr>objs := (objs s)
          (w := (objs s w)\<lparr>ws_sent := ws_sent (objs s w) @
                   (if ws_readyState (objs s w) = OPEN then [WaitingMsg] else [])\<rparr>),
          waitingClient := Some w\<rparr>)"
      by (intro handleFindMatch_wait) auto
    with h show "handleFindMatch cid s =
         (None, s\<lparr>objs := (objs s)
            (w := (objs s w)\<lparr>ws_sent := ws_sent (objs s w) @ [WaitingMsg]\<rparr>)\<rparr>)"
      by simp
  qed
  from a b c show ?thesis by (intro conjI)
qed

text \<open>
  Witness for C9: the fourth client of two completed pairings does not have itself as
  opponent, and client-a, waiting, calls find-match a second time.
\<close>

theorem relay_never_pairs_client_with_itself_witness:
  "c_opponentId (objs (two_pairs ''client-a'' ''client-b'' ''client-c'' ''client-d'') 3) \<noteq>
     Some (c_id (objs (two_pairs ''client-a'' ''client-b'' ''client-c'' ''client-d'') 3)) \<and>
   handleFindMatch ''client-a'' (one_waiting ''client-a'') =
     (None, \<lparr>objs = (\<lambda>_. initial_client)
        (0 := client_obj OPEN [ClientIdMsg ''client-a'', WaitingMsg, WaitingMsg] ''client-a''
                None None None),
      nextRef = 1, clients = [(''client-a'', 0)], waitingClient = Some 0\<rparr>)"
proof -
  have r: "two_pairs ''client-a'' ''client-b'' ''client-c'' ''client-d'' =
     run [Connection ''client-a'', Message ''client-a'' (Some FindMatch),
          Connection ''client-b'', Message ''client-b'' (Some FindMatch),
          Connection ''client-c'', Message ''client-c'' (Some FindMatch),
          Connection ''client-d'', Message ''client-d'' (Some FindMatch)] initial_server"
    by (simp add: two_pairs_def pair_and_waiting_def one_pair_def one_waiting_def
        run_append [symmetric])
  have h: "waitingClient (one_waiting ''client-a'') = Some 0 \<and>
     map_of (clients (one_waiting ''client-a'')) ''client-a'' = Some 0 \<and>
     c_id (objs (one_waiting ''client-a'') 0) = ''client-a'' \<and>
     ws_readyState (objs (one_waiting ''client-a'') 0) = OPEN"
    by (simp add: one_waiting_eq client_obj_def)
  from relay_never_pairs_client_with_itself have a:
    "c_opponentId (objs (two_pairs ''client-a'' ''client-b'' ''client-c'' ''client-d'') 3) \<noteq>
     Some (c_id (objs (two_pairs ''client-a'' ''client-b'' ''client-c'' ''client-d'') 3))"
    unfolding r by blast
  from relay_never_pairs_client_with_itself h have
    "handleFindMatch ''client-a'' (one_waiting ''client-a'') =
       (None, (one_waiting ''client-a'')\<lparr>objs := (objs (one_waiting ''client-a''))
          (0 := (objs (one_waiting ''client-a'') 0)\<lparr>ws_sent :=
             ws_sent (objs (one_waiting ''client-a'') 0) @ [WaitingMsg]\<rparr>)\<rparr>)"
    by blast
  then have b: "handleFindMatch ''client-a'' (one_waiting ''client-a'') =
     (None, \<lparr>objs = (\<lambda>_. initial_client)
        (0 := client_obj OPEN [ClientIdMsg ''client-a'', WaitingMsg, WaitingMsg] ''client-a''
                None None None),
      nextRef = 1, clients = [(''client-a'', 0)], waitingClient = Some 0\<rparr>)"
    by (simp add: one_waiting_eq client_obj_def fun_eq_iff)
  from a b show ?thesis by (intro conjI)
qed

subsection \<open>Claim C4: who is notified when a client disconnects\<close>

text \<open>
  Claim C4 says the opponent of the disconnecting client, and no other client, is sent
  \<open>peer-disconnected\<close>. The close handler looks for the first client of the map whose
  \<open>role\<close> is the other letter, not for the client whose id is the recorded
  \<open>opponentId\<close> (as \<open>handleSignal\<close> does). With two pairs (client-a, client-b) and
  (client-c, client-d), the close of client-d, whose opponent is client-c, sends nothing to
  client-c (its socket is open) and sends \<open>peer-disconnected\<close> to client-a, whose
  opponent client-b is still connected.
\<close>

theorem onClose_notifies_first_client_of_other_role:
  "c_id (objs (two_pairs ''client-a'' ''client-b'' ''client-c'' ''client-d'') 3) = ''client-d'' \<and>
   c_opponentId (objs (two_pairs ''client-a'' ''client-b'' ''client-c'' ''client-d'') 3) =
     Some ''client-c'' \<and>
   c_id (objs (two_pairs ''client-a'' ''client-b'' ''client-c'' ''client-d'') 2) = ''client-c'' \<and>
   ws_readyState (objs (two_pairs ''client-a'' ''client-b'' ''client-c'' ''client-d'') 2) = OPEN \<and>
   c_id (objs (two_pairs ''client-a'' ''client-b'' ''client-c'' ''client-d'') 0) = ''client-a'' \<and>
   c_opponentId (objs (two_pairs ''client-a'' ''client-b'' ''client-c'' ''client-d'') 0) =
     Some ''client-b'' \<and>
   ws_sent (objs (onClose ''client-d''
       (two_pairs ''client-a'' ''client-b'' ''client-c'' ''client-d'')) 2) =
     ws_sent (objs (two_pairs ''client-a'' ''client-b'' ''client-c'' ''client-d'') 2) \<and>
   ws_sent (objs (onClose ''client-d''
       (two_pairs ''client-a'' ''client-b'' ''client-c'' ''client-d'')) 0) =
     ws_sent (objs (two_pairs ''client-a'' ''client-b'' ''client-c'' ''client-d'') 0) @
       [PeerDisconnected]"
proof -
  have d: "distinct [''client-a'', ''client-b'', ''client-c'', ''client-d'']" by simp
  show ?thesis
    by (simp add: two_pairs_eq [OF d] onClose_def clearWaiting_def notifyOther_def
        send_if_open_def ws_send_def Let_def client_obj_def)
qed

section \<open>Properties of the negotiation session\<close>

lemmas pc_defs = pc_createOffer_def pc_createAnswer_def pc_setLocalDescription_def
  pc_setRemoteDescription_def pc_addIceCandidate_def socket_emit_def record_call_def
  try_catch_def

lemma handleCandidates_queued:
  assumes "peerConnection c = Some p" and "\<not> pc_closed p" and "remoteDescription p = None"
  shows "handleCandidates env cs c =
     c\<lparr>pendingRemoteCandidates := pendingRemoteCandidates c @ cs\<rparr>"
  using assms
proof (induction cs arbitrary: c)
  case Nil
  then show ?case by simp
next
  case (Cons x xs)
  have step: "snd (handleCandidate env x c) =
      c\<lparr>pendingRemoteCandidates := pendingRemoteCandidates c @ [x]\<rparr>"
    using Cons.prems by (simp add: handleCandidate_def try_catch_def)
  have "handleCandidates env xs (c\<lparr>pendingRemoteCandidates := pendingRemoteCandidates c @ [x]\<rparr>) =
      (c\<lparr>pendingRemoteCandidates := pendingRemoteCandidates c @ [x]\<rparr>)
        \<lparr>pendingRemoteCandidates :=
           pendingRemoteCandidates (c\<lparr>pendingRemoteCandidates := pendingRemoteCandidates c @ [x]\<rparr>) @ xs\<rparr>"
    using Cons.prems by (intro Cons.IH) simp_all
  with step show ?case by simp
qed

lemma flushLoop_applies_in_order:
  assumes "pendingRemoteCandidates c = q" and "peerConnection c = Some p"
  shows "flushLoop env c =
     c\<lparr>peerConnection :=
          Some (p\<lparr>iceCandidates := iceCandidates p @ filter (addIceCandidate_ok env) q\<rparr>),
       pendingRemoteCandidates := [],
       calls := calls c @ map AddIceCandidate q\<rparr>"
  using assms
proof (induction q arbitrary: c p)
  case Nil
  then show ?case by (subst flushLoop.simps) simp
next
  case (Cons x xs)
  show ?case
  proof (cases "addIceCandidate_ok env x")
    case True
    let ?c1 = "c\<lparr>pendingRemoteCandidates := xs, calls := calls c @ [AddIceCandidate x],
                 peerConnection := Some (p\<lparr>iceCandidates := iceCandidates p @ [x]\<rparr>)\<rparr>"
    have "flushLoop env c = flushLoop env ?c1"
      using Cons.prems True by (subst flushLoop.simps) (simp add: pc_defs)
    also have "\<dots> = ?c1\<lparr>peerConnection :=
          Some ((p\<lparr>iceCandidates := iceCandidates p @ [x]\<rparr>)
             \<lparr>iceCandidates := iceCandidates (p\<lparr>iceCandidates := iceCandidates p @ [x]\<rparr>) @
                filter (addIceCandidate_ok env) xs\<rparr>),
       pendingRemoteCandidates := [],
       calls := calls ?c1 @ map AddIceCandidate xs\<rparr>"
      by (intro Cons.IH) simp_all
    finally show ?thesis using True Cons.prems by simp
  next
    case False
    let ?c1 = "c\<lparr>pendingRemoteCandidates := xs, calls := calls c @ [AddIceCandidate x]\<rparr>"
    have "flushLoop env c = flushLoop env ?c1"
      using Cons.prems False by (subst flushLoop.simps) (simp add: pc_defs)
    also have "\<dots> = ?c1\<lparr>peerConnection :=
          Some (p\<lparr>iceCandidates := iceCandidates p @ filter (addIceCandidate_ok env) xs\<rparr>),
       pendingRemoteCandidates := [],
       calls := calls ?c1 @ map AddIceCandidate xs\<rparr>"
      using Cons.prems by (intro Cons.IH) simp_all
    finally show ?thesis using False Cons.prems by simp
  qed
qed

lemma flushLoop_eq:
  assumes "peerConnection c = Some p"
  shows "flushLoop env c =
     c\<lparr>peerConnection :=
          Some (p\<lparr>iceCandidates := iceCandidates p @
                   filter (addIceCandidate_ok env) (pendingRemoteCandidates c)\<rparr>),
       pendingRemoteCandidates := [],
       calls := calls c @ map AddIceCandidate (pendingRemoteCandidates c)\<rparr>"
  using flushLoop_applies_in_order [OF refl assms] .

lemma handleCandidates_applied:
  assumes "peerConnection c = Some p" and "\<not> pc_closed p" and "remoteDescription p = Some d"
  shows "handleCandidates env cs c =
     c\<lparr>peerConnection :=
          Some (p\<lparr>iceCandidates := iceCandidates p @ filter (addIceCandidate_ok env) cs\<rparr>),
       calls := calls c @ map AddIceCandidate cs\<rparr>"
  using assms
proof (induction cs arbitrary: c p)
  case Nil
  then show ?case by simp
next
  case (Cons x xs)
  show ?case
  proof (cases "addIceCandidate_ok env x")
    case True
    let ?c1 = "c\<lparr>calls := calls c @ [AddIceCandidate x],
                 peerConnection := Some (p\<lparr>iceCandidates := iceCandidates p @ [x]\<rparr>)\<rparr>"
    have "snd (handleCandidate env x c) = ?c1"
      using Cons.prems True by (simp add: handleCandidate_def pc_defs)
    moreover have "handleCandidates env xs ?c1 = ?c1\<lparr>peerConnection :=
          Some ((p\<lparr>iceCandidates := iceCandidates p @ [x]\<rparr>)
             \<lparr>iceCandidates := iceCandidates (p\<lparr>iceCandidates := iceCandidates p @ [x]\<rparr>) @
                filter (addIceCandidate_ok env) xs\<rparr>),
       calls := calls ?c1 @ map AddIceCandidate xs\<rparr>"
      using Cons.prems by (intro Cons.IH) simp_all
    ultimately show ?thesis using True by simp
  next
    case False
    let ?c1 = "c\<lparr>calls := calls c @ [AddIceCandidate x]\<rparr>"
    have "snd (handleCandidate env x c) = ?c1"
      using Cons.prems False by (simp add: handleCandidate_def pc_defs)
    moreover have "handleCandidates env xs ?c1 = ?c1\<lparr>peerConnection :=
          Some (p\<lparr>iceCandidates := iceCandidates p @ filter (addIceCandidate_ok env) xs\<rparr>),
       calls := calls ?c1 @ map AddIceCandidate xs\<rparr>"
      using Cons.prems by (intro Cons.IH) simp_all
    ultimately show ?thesis using False by simp
  qed
qed


lemma responder_session_eq:
  "responder_session =
     \<lparr>peerConnection = Some \<lparr>remoteDescription = None, localDescription = None,
                               pc_closed = False, iceCandidates = []\<rparr>,
      reliable = None, unreliable = None, isConnected = False, isInitiator = False,
      opponentId = Some ''peer-a'', pendingRemoteCandidates = [], calls = [], emitted = []\<rparr>"
  by (simp add: responder_session_def initialize_def createPeerConnection_def new_connection_def
      Let_def)

lemma initiator_session_eq:
  "initiator_session =
     \<lparr>peerConnection = Some \<lparr>remoteDescription = None, localDescription = Some ''offer-sdp'',
                               pc_closed = False, iceCandidates = []\<rparr>,
      reliable = Some \<lparr>label = ''game_reliable'', readyState = Connecting, ch_sent = []\<rparr>,
      unreliable = Some \<lparr>label = ''game_unreliable'', readyState = Connecting, ch_sent = []\<rparr>,
      isConnected = False, isInitiator = True,
      opponentId = Some ''peer-b'', pendingRemoteCandidates = [],
      calls = [CreateOffer, SetLocalDescription ''offer-sdp'',
               SocketEmit (OfferSignal ''offer-sdp'' (Some ''peer-b''))],
      emitted = []\<rparr>"
  by (simp add: initiator_session_def initialize_def createPeerConnection_def new_connection_def
      createDataChannels_def createAndSendOffer_def browser_ok_def pc_defs Let_def)

subsection \<open>Claim C2: candidates are queued, then applied in arrival order\<close>

text \<open>
  Claim C2, as the code has it. Take a session whose peer connection exists, is not
  closed and has no remote description. Candidates \<open>cs\<close> that arrive are appended to the
  pending queue and nothing else changes: no call is made, none is applied. When
  \<open>handleAnswer\<close> then sets the remote description, or \<open>handleOffer\<close> sets it and goes on
  to produce, install and emit its answer without error, the method returns normally, the
  calls it made are followed by one \<open>addIceCandidate\<close> per queued candidate in arrival
  order (each exactly once; those the browser accepts are added to the connection), and
  the queue is empty. On any open session that has a remote description, arriving
  candidates are applied at once, in order, and the queue is not touched. A flush on an
  empty queue changes nothing, so no candidate is applied again. A candidate that
  arrives while the peer connection is absent or closed is dropped.
\<close>

theorem candidates_queued_then_flushed_in_order:
  assumes "peerConnection c = Some p" and "\<not> pc_closed p" and "remoteDescription p = None"
  shows "handleCandidates env cs c =
       c\<lparr>pendingRemoteCandidates := pendingRemoteCandidates c @ cs\<rparr> \<and>
     (setRemoteDescription_ok env d \<longrightarrow>
        handleAnswer env d (handleCandidates env cs c) =
          (None, c\<lparr>peerConnection :=
               Some (p\<lparr>remoteDescription := Some d,
                      iceCandidates := iceCandidates p @
                        filter (addIceCandidate_ok env) (pendingRemoteCandidates c @ cs)\<rparr>),
             pendingRemoteCandidates := [],
             calls := calls c @ SetRemoteDescription d #
                        map AddIceCandidate (pendingRemoteCandidates c @ cs)\<rparr>)) \<and>
     (setRemoteDescription_ok env d \<and> createAnswer_result env = Some a \<and>
      setLocalDescription_ok env a \<and> emit_ok env (AnswerSignal a (opponentId c)) \<longrightarrow>
        handleOffer env d (handleCandidates env cs c) =
          (None, c\<lparr>peerConnection :=
               Some (p\<lparr>remoteDescription := Some d, localDescription := Some a,
                      iceCandidates := iceCandidates p @
                        filter (addIceCandidate_ok env) (pendingRemoteCandidates c @ cs)\<rparr>),
             pendingRemoteCandidates := [],
             calls := calls c @
               [SetRemoteDescription d, CreateAnswer, SetLocalDescription a,
                SocketEmit (AnswerSignal a (opponentId c))] @
               map AddIceCandidate (pendingRemoteCandidates c @ cs)\<rparr>)) \<and>
     (\<forall>c' p' d' cs'. peerConnection c' = Some p' \<and> \<not> pc_closed p' \<and>
          remoteDescription p' = Some d' \<longrightarrow>
        handleCandidates env cs' c' =
          c'\<lparr>peerConnection :=
               Some (p'\<lparr>iceCandidates := iceCandidates p' @
                                         filter (addIceCandidate_ok env) cs'\<rparr>),
             calls := calls c' @ map AddIceCandidate cs'\<rparr>) \<and>
     (\<forall>c'. pendingRemoteCandidates c' = [] \<longrightarrow> flushPendingRemoteCandidates env c' = c') \<and>
     (\<forall>c' x. peerConnection c' = None \<or>
          (\<exists>p'. peerConnection c' = Some p' \<and> pc_closed p') \<longrightarrow>
        handleCandidate env x c' = (None, c'))"
    (is "?queued \<and> ?answer \<and> ?offer \<and> ?later \<and> ?drained \<and> ?dropped")
proof -
  let ?q = "pendingRemoteCandidates c @ cs"
  let ?c1 = "c\<lparr>pendingRemoteCandidates := ?q\<rparr>"
  have q: ?queued
    using assms by (rule handleCandidates_queued)
  have a: ?answer
    using assms
    by (simp add: q handleAnswer_def flushPendingRemoteCandidates_def pc_defs
        flushLoop_eq [where p = "p\<lparr>remoteDescription := Some d\<rparr>"])
  have b: ?offer
    using assms
    by (simp add: q handleOffer_def flushPendingRemoteCandidates_def pc_defs
        flushLoop_eq [where p = "p\<lparr>remoteDescription := Some d, localDescription := Some a\<rparr>"])
  have l: ?later
    by (intro allI impI) (auto intro: handleCandidates_applied)
  have dr: ?drained
    by (intro allI impI)
       (simp add: flushPendingRemoteCandidates_def flushLoop.simps [of env] split: option.splits)
  have dp: ?dropped
    by (intro allI impI) (auto simp: handleCandidate_def try_catch_def)
  from q a b l dr dp show ?thesis by (intro conjI)
qed

text \<open>
  Witness for C2: three candidates reach a fresh responder session, then an offer (or an
  answer) is handled in a browser where every call succeeds.
\<close>

theorem candidates_queued_then_flushed_in_order_witness:
  "handleCandidates browser_ok [''c1'', ''c2'', ''c3''] responder_session =
     responder_session\<lparr>pendingRemoteCandidates := [''c1'', ''c2'', ''c3'']\<rparr> \<and>
   calls (snd (handleOffer browser_ok ''offer-sdp''
      (handleCandidates browser_ok [''c1'', ''c2'', ''c3''] responder_session))) =
     [SetRemoteDescription ''offer-sdp'', CreateAnswer, SetLocalDescription ''answer-sdp'',
      SocketEmit (AnswerSignal ''answer-sdp'' (Some ''peer-a'')),
      AddIceCandidate ''c1'', AddIceCandidate ''c2'', AddIceCandidate ''c3''] \<and>
   pendingRemoteCandidates (snd (handleOffer browser_ok ''offer-sdp''
      (handleCandidates browser_ok [''c1'', ''c2'', ''c3''] responder_session))) = [] \<and>
   calls (snd (handleAnswer browser_ok ''answer-sdp''
      (handleCandidates browser_ok [''c1'', ''c2'', ''c3''] responder_session))) =
     [SetRemoteDescription ''answer-sdp'',
      AddIceCandidate ''c1'', AddIceCandidate ''c2'', AddIceCandidate ''c3'']"
proof -
  have h: "peerConnection responder_session =
      Some \<lparr>remoteDescription = None, localDescription = None, pc_closed = False,
            iceCandidates = []\<rparr>"
    by (simp add: responder_session_eq)
  have ok: "setRemoteDescription_ok browser_ok ''offer-sdp'' \<and>
      createAnswer_result browser_ok = Some ''answer-sdp'' \<and>
      setLocalDescription_ok browser_ok ''answer-sdp'' \<and>
      emit_ok browser_ok (AnswerSignal ''answer-sdp'' (opponentId responder_session))"
    and ok': "setRemoteDescription_ok browser_ok ''answer-sdp''"
    by (simp_all add: browser_ok_def)
  note offer = candidates_queued_then_flushed_in_order
    [OF h, of browser_ok "[''c1'', ''c2'', ''c3'']" "''offer-sdp''" "''answer-sdp''", simplified]
  note answer = candidates_queued_then_flushed_in_order
    [OF h, of browser_ok "[''c1'', ''c2'', ''c3'']" "''answer-sdp''" "''answer-sdp''", simplified]
  have a: "handleCandidates browser_ok [''c1'', ''c2'', ''c3''] responder_session =
     responder_session\<lparr>pendingRemoteCandidates := [''c1'', ''c2'', ''c3'']\<rparr>"
    using offer [THEN conjunct1] by (simp add: responder_session_eq)
  have b: "calls (snd (handleOffer browser_ok ''offer-sdp''
      (handleCandidates browser_ok [''c1'', ''c2'', ''c3''] responder_session))) =
     [SetRemoteDescription ''offer-sdp'', CreateAnswer, SetLocalDescription ''answer-sdp'',
      SocketEmit (AnswerSignal ''answer-sdp'' (Some ''peer-a'')),
      AddIceCandidate ''c1'', AddIceCandidate ''c2'', AddIceCandidate ''c3'']"
    and c: "pendingRemoteCandidates (snd (handleOffer browser_ok ''offer-sdp''
      (handleCandidates browser_ok [''c1'', ''c2'', ''c3''] responder_session))) = []"
    using offer [THEN conjunct2, THEN conjunct2, THEN conjunct1, THEN mp, OF ok]
    by (simp_all add: responder_session_eq)
  have d: "calls (snd (handleAnswer browser_ok ''answer-sdp''
      (handleCandidates browser_ok [''c1'', ''c2'', ''c3''] responder_session))) =
     [SetRemoteDescription ''answer-sdp'',
      AddIceCandidate ''c1'', AddIceCandidate ''c2'', AddIceCandidate ''c3'']"
    using answer [THEN conjunct2, THEN conjunct1, THEN mp, OF ok']
    by (simp add: responder_session_eq)
  from a b c d show ?thesis by (intro conjI)
qed

text \<open>
  Counterexample to C2 as stated, at two inputs. A responder session is closed before
  any remote description was set; a candidate that arrives then is neither queued nor
  applied. And a responder session queues \<open>c1\<close>, then handles an offer in a browser whose
  \<open>createAnswer\<close> fails: the remote description is set, but the flush at the end of the
  \<open>try\<close> block is skipped, \<open>c1\<close> stays queued and is not applied, and the next
  candidate \<open>c2\<close> is applied at once while \<open>c1\<close> still waits.
\<close>

theorem candidate_dropped_or_left_queued:
  "remoteDescription (the (peerConnection (snd (close responder_session)))) = None \<and>
   handleCandidate browser_ok ''c1'' (snd (close responder_session)) =
     (None, snd (close responder_session)) \<and>
   pendingRemoteCandidates (snd (close responder_session)) = [] \<and>
   calls (snd (close responder_session)) = [] \<and>
   pendingRemoteCandidates (snd (handleCandidate browser_ok ''c1'' responder_session)) = [''c1''] \<and>
   remoteDescription (the (peerConnection (snd (handleOffer browser_no_answer ''offer-sdp''
      (snd (handleCandidate browser_ok ''c1'' responder_session)))))) = Some ''offer-sdp'' \<and>
   pendingRemoteCandidates (snd (handleOffer browser_no_answer ''offer-sdp''
      (snd (handleCandidate browser_ok ''c1'' responder_session)))) = [''c1''] \<and>
   calls (snd (handleOffer browser_no_answer ''offer-sdp''
      (snd (handleCandidate browser_ok ''c1'' responder_session)))) =
     [SetRemoteDescription ''offer-sdp'', CreateAnswer] \<and>
   calls (snd (handleCandidate browser_ok ''c2'' (snd (handleOffer browser_no_answer ''offer-sdp''
      (snd (handleCandidate browser_ok ''c1'' responder_session)))))) =
     [SetRemoteDescription ''offer-sdp'', CreateAnswer, AddIceCandidate ''c2''] \<and>
   pendingRemoteCandidates (snd (handleCandidate browser_ok ''c2''
      (snd (handleOffer browser_no_answer ''offer-sdp''
        (snd (handleCandidate browser_ok ''c1'' responder_session)))))) = [''c1'']"
  by (simp add: responder_session_eq close_def pc_close_def handleCandidate_def handleOffer_def
      browser_no_answer_def browser_ok_def pc_defs Let_def)

lemma open_session_eq:
  "open_session =
     \<lparr>peerConnection = Some \<lparr>remoteDescription = None, localDescription = Some ''offer-sdp'',
                               pc_closed = False, iceCandidates = []\<rparr>,
      reliable = Some \<lparr>label = ''game_reliable'', readyState = Open, ch_sent = []\<rparr>,
      unreliable = Some \<lparr>label = ''game_unreliable'', readyState = Connecting, ch_sent = []\<rparr>,
      isConnected = True, isInitiator = True,
      opponentId = Some ''peer-b'', pendingRemoteCandidates = [],
      calls = [CreateOffer, SetLocalDescription ''offer-sdp'',
               SocketEmit (OfferSignal ''offer-sdp'' (Some ''peer-b''))],
      emitted = [GameDatachannelOpen]\<rparr>"
  by (simp add: open_session_def initiator_session_eq onChannelOpen_def)

subsection \<open>Claim C5: send succeeds exactly when the selected channel is open and takes the payload\<close>

text \<open>
  Claim C5. \<open>send(payload, reliable)\<close> looks at the reliable channel when \<open>reliable\<close> is
  true and at the unreliable one otherwise. It returns \<open>true\<close> if and only if that channel
  exists, its state is open and the channel's own \<open>send\<close> accepts the payload, and then
  the session differs only in that the payload has been handed to that channel. If the
  channel is absent or not open, \<open>send\<close> returns \<open>false\<close> and the session is unchanged:
  nothing is sent, nothing is stored for later, and no exception escapes (the result is
  not \<open>Inl\<close>).
\<close>

theorem send_true_iff_selected_channel_open_and_accepting:
  "(fst (send env d rel c) = Inr True \<longleftrightarrow>
      (\<exists>ch. (if rel then reliable c else unreliable c) = Some ch \<and> readyState ch = Open) \<and>
      channelSend_error env d = None) \<and>
   (\<forall>ch. (if rel then reliable c else unreliable c) = Some ch \<and> readyState ch = Open \<and>
         channelSend_error env d = None \<longrightarrow>
      send env d rel c =
        (Inr True, if rel then c\<lparr>reliable := Some (ch\<lparr>ch_sent := ch_sent ch @ [d]\<rparr>)\<rparr>
                   else c\<lparr>unreliable := Some (ch\<lparr>ch_sent := ch_sent ch @ [d]\<rparr>)\<rparr>)) \<and>
   ((\<forall>ch. (if rel then reliable c else unreliable c) = Some ch \<longrightarrow> readyState ch \<noteq> Open) \<longrightarrow>
      send env d rel c = (Inr False, c))"
  by (cases rel) (auto simp: send_def channel_send_def Let_def split: option.splits)

text \<open>
  Witness for C5: on the initiator's session with its reliable channel open and its
  unreliable channel still connecting, and on a responder session without channels, in
  a browser that accepts every payload.
\<close>

theorem send_true_iff_selected_channel_open_and_accepting_witness:
  "send browser_ok ''move'' True open_session =
     (Inr True, open_session\<lparr>reliable :=
        Some \<lparr>label = ''game_reliable'', readyState = Open, ch_sent = [''move'']\<rparr>\<rparr>) \<and>
   send browser_ok ''move'' False open_session = (Inr False, open_session) \<and>
   send browser_ok ''move'' True responder_session = (Inr False, responder_session)"
proof -
  have r: "(if True then reliable open_session else unreliable open_session) =
        Some \<lparr>label = ''game_reliable'', readyState = Open, ch_sent = []\<rparr> \<and>
      readyState \<lparr>label = ''game_reliable'', readyState = Open, ch_sent = []\<rparr> = Open \<and>
      channelSend_error browser_ok ''move'' = None"
    by (simp add: open_session_eq browser_ok_def)
  have u: "\<forall>ch. (if False then reliable open_session else unreliable open_session) = Some ch \<longrightarrow>
      readyState ch \<noteq> Open"
    by (simp add: open_session_eq)
  have n: "\<forall>ch. (if True then reliable responder_session else unreliable responder_session) =
      Some ch \<longrightarrow> readyState ch \<noteq> Open"
    by (simp add: responder_session_eq)
  have a: "send browser_ok ''move'' True open_session =
     (Inr True, open_session\<lparr>reliable :=
        Some \<lparr>label = ''game_reliable'', readyState = Open, ch_sent = [''move'']\<rparr>\<rparr>)"
    using send_true_iff_selected_channel_open_and_accepting
        [of browser_ok "''move''" True open_session,
        THEN conjunct2, THEN conjunct1, THEN spec, THEN mp, OF r]
    by simp
  have b: "send browser_ok ''move'' False open_session = (Inr False, open_session)"
    using send_true_iff_selected_channel_open_and_accepting
        [of browser_ok "''move''" False open_session,
        THEN conjunct2, THEN conjunct2, THEN mp, OF u] .
  have c: "send browser_ok ''move'' True responder_session = (Inr False, responder_session)"
    using send_true_iff_selected_channel_open_and_accepting
        [of browser_ok "''move''" True responder_session,
        THEN conjunct2, THEN conjunct2, THEN mp, OF n] .
  from a b c show ?thesis by (intro conjI)
qed

text \<open>
  Without the condition on the channel's own \<open>send\<close> the statement fails: the initiator's
  reliable channel exists and is open, the browser refuses the payload because the
  channel's send buffer is full, and \<open>send\<close> does not return \<open>true\<close>; the exception of
  \<open>channel.send\<close> leaves \<open>send\<close> and nothing has been sent.
\<close>

theorem send_on_open_channel_does_not_return_true:
  "reliable open_session = Some \<lparr>label = ''game_reliable'', readyState = Open, ch_sent = []\<rparr> \<and>
   send browser_buffer_full ''move'' True open_session = (Inl DOMException, open_session)"
  by (simp add: open_session_eq send_def channel_send_def browser_buffer_full_def browser_ok_def)

subsection \<open>Claim C6: close is idempotent\<close>

text \<open>
  Claim C6. \<open>close()\<close> returns normally, and closing the session it leaves returns
  normally with the very same session: same channels, same peer connection, same flags,
  same emitted events. After \<open>close\<close> the connected flag is false, each channel the
  session has is closing or closed, the peer connection, if any, is closed, and no event
  has been emitted by either call.
\<close>

theorem close_twice_same_as_once:
  "fst (close c) = None \<and>
   close (snd (close c)) = close c \<and>
   isConnected (snd (close c)) = False \<and>
   emitted (snd (close c)) = emitted c \<and>
   (\<forall>ch. reliable (snd (close c)) = Some ch \<longrightarrow>
      readyState ch = Closing \<or> readyState ch = Closed) \<and>
   (\<forall>ch. unreliable (snd (close c)) = Some ch \<longrightarrow>
      readyState ch = Closing \<or> readyState ch = Closed) \<and>
   (\<forall>pc. peerConnection (snd (close c)) = Some pc \<longrightarrow> pc_closed pc) \<and>
   (reliable (snd (close c)) = None \<longleftrightarrow> reliable c = None) \<and>
   (unreliable (snd (close c)) = None \<longleftrightarrow> unreliable c = None) \<and>
   (peerConnection (snd (close c)) = None \<longleftrightarrow> peerConnection c = None)"
  by (cases "reliable c"; cases "unreliable c"; cases "peerConnection c")
     (auto simp: close_def pc_close_def channel_close_def Let_def)

text \<open>Witness for C6: the open initiator session, closed once and twice.\<close>

theorem close_twice_same_as_once_witness:
  "close (snd (close open_session)) = close open_session \<and>
   close open_session =
     (None, open_session\<lparr>
        peerConnection := Some \<lparr>remoteDescription = None, localDescription = Some ''offer-sdp'',
                                 pc_closed = True, iceCandidates = []\<rparr>,
        reliable := Some \<lparr>label = ''game_reliable'', readyState = Closed, ch_sent = []\<rparr>,
        unreliable := Some \<lparr>label = ''game_unreliable'', readyState = Closed, ch_sent = []\<rparr>,
        isConnected := False\<rparr>) \<and>
   emitted (snd (close open_session)) = [GameDatachannelOpen] \<and>
   (readyState \<lparr>label = ''game_reliable'', readyState = Closed, ch_sent = []\<rparr> = Closing \<or>
    readyState \<lparr>label = ''game_reliable'', readyState = Closed, ch_sent = []\<rparr> = Closed)"
proof -
  note t = close_twice_same_as_once [of open_session]
  have e: "close open_session =
     (None, open_session\<lparr>
        peerConnection := Some \<lparr>remoteDescription = None, localDescription = Some ''offer-sdp'',
                                 pc_closed = True, iceCandidates = []\<rparr>,
        reliable := Some \<lparr>label = ''game_reliable'', readyState = Closed, ch_sent = []\<rparr>,
        unreliable := Some \<lparr>label = ''game_unreliable'', readyState = Closed, ch_sent = []\<rparr>,
        isConnected := False\<rparr>)"
    by (simp add: open_session_eq close_def pc_close_def channel_close_def Let_def)
  have r: "reliable (snd (close open_session)) =
      Some \<lparr>label = ''game_reliable'', readyState = Closed, ch_sent = []\<rparr>"
    by (simp add: e)
  from t have a: "close (snd (close open_session)) = close open_session" by blast
  from t have "emitted (snd (close open_session)) = emitted open_session" by blast
  then have b: "emitted (snd (close open_session)) = [GameDatachannelOpen]"
    by (simp add: open_session_eq)
  from t r have c:
    "readyState \<lparr>label = ''game_reliable'', readyState = Closed, ch_sent = []\<rparr> = Closing \<or>
     readyState \<lparr>label = ''game_reliable'', readyState = Closed, ch_sent = []\<rparr> = Closed"
    by blast
  from a e b c show ?thesis by (intro conjI)
qed

subsection \<open>Claim C8: negotiation errors are caught and negotiation stalls\<close>

text \<open>
  Claim C8. Whatever the browser does and whatever the session's state,
  \<open>createAndSendOffer\<close>, \<open>handleOffer\<close>, \<open>handleAnswer\<close> and \<open>handleCandidate\<close> return
  normally. With no peer connection they leave the session as it is. With one, when a
  call fails (offer or answer production, installing a description, emitting the signal,
  applying a candidate) the session stays exactly where the failure found it: what the
  calls before it achieved is kept, the failed call is the last entry of the call trace,
  and nothing is called after it, so there is no retry.
\<close>

theorem negotiation_errors_caught_and_stall:
  "fst (createAndSendOffer env c) = None \<and>
   fst (handleOffer env d c) = None \<and>
   fst (handleAnswer env d c) = None \<and>
   fst (handleCandidate env x c) = None \<and>
   (peerConnection c = None \<longrightarrow>
      snd (createAndSendOffer env c) = c \<and> snd (handleOffer env d c) = c \<and>
      snd (handleAnswer env d c) = c \<and> snd (handleCandidate env x c) = c) \<and>
   (\<forall>p. peerConnection c = Some p \<longrightarrow>
      (createOffer_result env = None \<longrightarrow>
         snd (createAndSendOffer env c) = c\<lparr>calls := calls c @ [CreateOffer]\<rparr>) \<and>
      (\<forall>off. createOffer_result env = Some off \<and> \<not> setLocalDescription_ok env off \<longrightarrow>
         snd (createAndSendOffer env c) =
           c\<lparr>calls := calls c @ [CreateOffer, SetLocalDescription off]\<rparr>) \<and>
      (\<forall>off. createOffer_result env = Some off \<and> setLocalDescription_ok env off \<and>
           \<not> emit_ok env (OfferSignal off (opponentId c)) \<longrightarrow>
         snd (createAndSendOffer env c) =
           c\<lparr>peerConnection := Some (p\<lparr>localDescription := Some off\<rparr>),
             calls := calls c @ [CreateOffer, SetLocalDescription off,
                                 SocketEmit (OfferSignal off (opponentId c))]\<rparr>) \<and>
      (\<not> setRemoteDescription_ok env d \<longrightarrow>
         snd (handleOffer env d c) = c\<lparr>calls := calls c @ [SetRemoteDescription d]\<rparr> \<and>
         snd (handleAnswer env d c) = c\<lparr>calls := calls c @ [SetRemoteDescription d]\<rparr>) \<and>
      (setRemoteDescription_ok env d \<and> createAnswer_result env = None \<longrightarrow>
         snd (handleOffer env d c) =
           c\<lparr>peerConnection := Some (p\<lparr>remoteDescription := Some d\<rparr>),
             calls := calls c @ [SetRemoteDescription d, CreateAnswer]\<rparr>) \<and>
      (\<forall>ans. setRemoteDescription_ok env d \<and> createAnswer_result env = Some ans \<and>
           \<not> setLocalDescription_ok env ans \<longrightarrow>
         snd (handleOffer env d c) =
           c\<lparr>peerConnection := Some (p\<lparr>remoteDescription := Some d\<rparr>),
             calls := calls c @ [SetRemoteDescription d, CreateAnswer,
                                 SetLocalDescription ans]\<rparr>) \<and>
      (\<forall>ans. setRemoteDescription_ok env d \<and> createAnswer_result env = Some ans \<and>
           setLocalDescription_ok env ans \<and>
           \<not> emit_ok env (AnswerSignal ans (opponentId c)) \<longrightarrow>
         snd (handleOffer env d c) =
           c\<lparr>peerConnection :=
               Some (p\<lparr>remoteDescription := Some d, localDescription := Some ans\<rparr>),
             calls := calls c @ [SetRemoteDescription d, CreateAnswer,
                                 SetLocalDescription ans,
                                 SocketEmit (AnswerSignal ans (opponentId c))]\<rparr>) \<and>
      (\<not> pc_closed p \<and> remoteDescription p \<noteq> None \<and> \<not> addIceCandidate_ok env x \<longrightarrow>
         snd (handleCandidate env x c) = c\<lparr>calls := calls c @ [AddIceCandidate x]\<rparr>))"
    (is "?r1 \<and> ?r2 \<and> ?r3 \<and> ?r4 \<and> ?absent \<and> ?stall")
proof -
  have r1: ?r1 by (simp add: createAndSendOffer_def try_catch_def)
  have r2: ?r2 by (simp add: handleOffer_def try_catch_def split: option.splits)
  have r3: ?r3 by (simp add: handleAnswer_def try_catch_def)
  have r4: ?r4 by (simp add: handleCandidate_def try_catch_def)
  have ab: ?absent
    by (simp add: createAndSendOffer_def handleOffer_def handleAnswer_def handleCandidate_def
        pc_defs)
  have st: ?stall
    by (intro allI impI conjI)
       (auto simp add: createAndSendOffer_def handleOffer_def handleAnswer_def
          handleCandidate_def pc_defs)
  from r1 r2 r3 r4 ab st show ?thesis by (intro conjI)
qed

text \<open>
  Witness for C8: an offer handled by a responder whose browser fails to create the
  answer, and an answer handled by a session that was never initialized.
\<close>

theorem negotiation_errors_caught_and_stall_witness:
  "handleOffer browser_no_answer ''offer-sdp'' responder_session =
     (None, responder_session\<lparr>
        peerConnection := Some \<lparr>remoteDescription = Some ''offer-sdp'', localDescription = None,
                                 pc_closed = False, iceCandidates = []\<rparr>,
        calls := [SetRemoteDescription ''offer-sdp'', CreateAnswer]\<rparr>) \<and>
   handleAnswer browser_ok ''answer-sdp'' new_connection = (None, new_connection)"
proof -
  note t = negotiation_errors_caught_and_stall
  have p: "peerConnection responder_session =
      Some \<lparr>remoteDescription = None, localDescription = None, pc_closed = False,
            iceCandidates = []\<rparr>"
    by (simp add: responder_session_eq)
  have f: "setRemoteDescription_ok browser_no_answer ''offer-sdp'' \<and>
      createAnswer_result browser_no_answer = None"
    by (simp add: browser_no_answer_def browser_ok_def)
  have n: "peerConnection new_connection = None"
    by (simp add: new_connection_def)
  from t [of browser_no_answer responder_session "''offer-sdp''" "''c1''"] p f
  have "fst (handleOffer browser_no_answer ''offer-sdp'' responder_session) = None"
    and "snd (handleOffer browser_no_answer ''offer-sdp'' responder_session) =
      responder_session\<lparr>peerConnection :=
          Some (\<lparr>remoteDescription = None, localDescription = None, pc_closed = False,
                 iceCandidates = []\<rparr>\<lparr>remoteDescription := Some ''offer-sdp''\<rparr>),
        calls := calls responder_session @ [SetRemoteDescription ''offer-sdp'', CreateAnswer]\<rparr>"
    by blast+
  then have a: "handleOffer browser_no_answer ''offer-sdp'' responder_session =
     (None, responder_session\<lparr>
        peerConnection := Some \<lparr>remoteDescription = Some ''offer-sdp'', localDescription = None,
                                 pc_closed = False, iceCandidates = []\<rparr>,
        calls := [SetRemoteDescription ''offer-sdp'', CreateAnswer]\<rparr>)"
    by (simp add: prod_eq_iff responder_session_eq)
  from t [of browser_ok new_connection "''answer-sdp''" "''c1''"] n
  have "fst (handleAnswer browser_ok ''answer-sdp'' new_connection) = None"
    and "snd (handleAnswer browser_ok ''answer-sdp'' new_connection) = new_connection"
    by blast+
  then have b: "handleAnswer browser_ok ''answer-sdp'' new_connection = (None, new_connection)"
    by (simp add: prod_eq_iff)
  from a b show ?thesis by (intro conjI)
qed

section \<open>Properties of the broadcast-medium matchmaker\<close>























subsection \<open>Claim C1: the earliest registered initiator keeps the role\<close>






section \<open>Properties of the network managers\<close>

lemma waiting_host_eq:
  "waiting_host =
     (\<lparr>peers = [host_entry ''peer-a'' 1000], signaling = []\<rparr>,
      (new_manager ''peer-a'')\<lparr>verifyScheduled := False, hostPolling := True,
         m_role := Some RoleA, m_isInitiator := True, isSignalingConnected := True\<rparr>)"
  by (simp add: waiting_host_def fireVerify_def verifyHostStatus_def becomeHost_def
      activePeers_def empty_storage_def new_manager_def host_entry_def Let_def)

lemma matched_host_facts:
  "matchmakingComplete (snd matched_host)"
  "m_role (snd matched_host) = Some RoleA"
  "m_opponentId (snd matched_host) = Some ''peer-b''"
  "scene_events (snd matched_host) =
     [MatchFoundEvent ''local-room'' (Some RoleA) (Some ''peer-b'') True]"
  "peers (fst matched_host) =
     [(host_entry ''peer-a'' 1000)\<lparr>p_lookingForMatch := Some False, p_timestamp := 1200\<rparr>]"
  by (simp_all add: matched_host_def waiting_host_eq handleSignalingMessage_def
      join_request_from_def updatePeerStatus_def emitSignalingMessage_def emitMatchFound_def
      connectToGame_def initializeGameConnection_def replayOffer_def replayCandidates_def
      no_opponent_def new_manager_def host_entry_def Let_def)

subsection \<open>Claim C7: a matched participant ignores further join messages\<close>

text \<open>
  Claim C7. When a participant's matchmaking is complete, handling a \<open>join-request\<close> or
  a \<open>join-accept\<close>, directly or through the storage listener, returns the storage and the
  manager exactly as they were: role, opponent, completion flag, the registry with the
  participant's entry, the signaling key and the emitted events are all unchanged. The
  relay-server manager has no case for the two messages and ignores them in every state.
\<close>

theorem completed_matchmaking_ignores_join_messages:
  "(matchmakingComplete m \<and> (sm_body msg = JoinRequest t \<or> sm_body msg = JoinAccept t) \<longrightarrow>
      handleSignalingMessage env now msg (st, m) = (st, m) \<and>
      onStorage env now msg (st, m) = (st, m)) \<and>
   ws_handleSignalingMessage env (Some (JoinRequest t)) m = m \<and>
   ws_handleSignalingMessage env (Some (JoinAccept t)) m = m"
  by (auto simp: handleSignalingMessage_def onStorage_def ws_handleSignalingMessage_def
      handleSessionSignal_def)

text \<open>
  Witness for C7: the host peer-a, matched with peer-b, receives a join-request from
  peer-c.
\<close>

theorem completed_matchmaking_ignores_join_messages_witness:
  "m_opponentId (snd matched_host) = Some ''peer-b'' \<and>
   handleSignalingMessage browser_ok 1300 (join_request_from ''peer-c'' 1290) matched_host =
     matched_host \<and>
   onStorage browser_ok 1300 (join_request_from ''peer-c'' 1290) matched_host = matched_host"
proof -
  have h: "matchmakingComplete (snd matched_host) \<and>
      (sm_body (join_request_from ''peer-c'' 1290) = JoinRequest ''peer-a'' \<or>
       sm_body (join_request_from ''peer-c'' 1290) = JoinAccept ''peer-a'')"
    by (simp add: matched_host_facts join_request_from_def)
  from completed_matchmaking_ignores_join_messages
    [of "snd matched_host" "join_request_from ''peer-c'' 1290" "''peer-a''" browser_ok 1300
        "fst matched_host"] h
  show ?thesis by (simp add: matched_host_facts)
qed

subsection \<open>Claim C10: signals that arrive before the session exists\<close>

text \<open>
  Claim C10, as the code has it. While a manager has no session object, an \<open>offer\<close> is
  stored in \<open>pendingOffer\<close>, an \<open>ice-candidate\<close> is appended to \<open>pendingCandidates\<close>,
  and an \<open>answer\<close> changes nothing at all, so nothing of it is left to replay; this holds
  for the relay-server manager and for the broadcast-medium manager alike. When
  \<open>connectToGame\<close> then creates the session (the manager has an opponent), the buffered
  candidates are replayed on it in arrival order and the buffer is emptied; the buffered
  offer is replayed before them and cleared if this side is not the initiator, while an
  initiator keeps the buffered offer and does not apply it.
\<close>

theorem buffered_offer_and_candidates_replayed_answer_dropped:
  assumes "gameConnection m = None"
  shows "handleSessionSignal env (Offer d) m = m\<lparr>pendingOffer := Some d\<rparr> \<and>
     handleSessionSignal env (IceCandidate x) m =
       m\<lparr>pendingCandidates := pendingCandidates m @ [x]\<rparr> \<and>
     handleSessionSignal env (Answer d) m = m \<and>
     (\<forall>b. ws_handleSignalingMessage env (Some b) m = handleSessionSignal env b m) \<and>
     (\<forall>msg st now. sm_body msg = Offer d \<or> sm_body msg = Answer d \<or>
          sm_body msg = IceCandidate x \<longrightarrow>
        handleSignalingMessage env now msg (st, m) =
          (st, handleSessionSignal env (sm_body msg) m)) \<and>
     (\<not> no_opponent (m_opponentId m) \<longrightarrow>
        connectToGame env m =
          m\<lparr>gameConnection :=
               Some (handleCandidates env (pendingCandidates m)
                 (case pendingOffer m of
                    None \<Rightarrow> initialize env (m_isInitiator m) (m_opponentId m) new_connection
                  | Some off \<Rightarrow>
                      if m_isInitiator m
                      then initialize env (m_isInitiator m) (m_opponentId m) new_connection
                      else snd (handleOffer env off
                             (initialize env (m_isInitiator m) (m_opponentId m) new_connection)))),
             pendingOffer := (if m_isInitiator m then pendingOffer m else None),
             pendingCandidates := []\<rparr>)"
    (is "?offer \<and> ?cand \<and> ?answer \<and> ?ws \<and> ?local \<and> ?connect")
proof -
  have a: ?offer and b: ?cand and c: ?answer
    using assms by (simp_all add: handleSessionSignal_def)
  have d: ?ws by (simp add: ws_handleSignalingMessage_def)
  have e: ?local by (auto simp: handleSignalingMessage_def)
  have f: ?connect
    using assms
    by (cases "pendingOffer m"; cases "pendingCandidates m = []")
       (auto simp: connectToGame_def initializeGameConnection_def replayOffer_def
          replayCandidates_def Let_def)
  from a b c d e f show ?thesis by (intro conjI)
qed

lemma flushLoop_Nil: "pendingRemoteCandidates c = [] \<Longrightarrow> flushLoop env c = c"
  by (subst flushLoop.simps) simp

lemma guest_tab_eq:
  "guest_tab = (new_manager ''peer-b'')\<lparr>m_role := Some RoleB, m_isInitiator := False,
      m_opponentId := Some ''peer-a'', isSignalingConnected := True\<rparr>"
  by (simp add: guest_tab_def waiting_host_eq findMatch_def electLeader_def
      tryRegisterAsHost_def joinAsGuest_def emitSignalingMessage_def activePeers_def
      new_manager_def host_entry_def no_opponent_def Let_def)

lemma buffered_guest_eq:
  "buffered_guest = guest_tab\<lparr>pendingOffer := Some ''offer-sdp'',
      pendingCandidates := [''c1'', ''c2'']\<rparr>"
  by (simp add: buffered_guest_def guest_tab_eq handleSessionSignal_def new_manager_def)

text \<open>
  Witness for C10: the guest peer-b buffers an offer, two candidates and an answer, then
  connects; its new session sets the offer, answers, and applies the two candidates.
\<close>

theorem buffered_offer_and_candidates_replayed_answer_dropped_witness:
  "handleSessionSignal browser_ok (Offer ''offer-sdp'') guest_tab =
     guest_tab\<lparr>pendingOffer := Some ''offer-sdp''\<rparr> \<and>
   handleSessionSignal browser_ok (IceCandidate ''c1'') guest_tab =
     guest_tab\<lparr>pendingCandidates := [''c1'']\<rparr> \<and>
   handleSessionSignal browser_ok (Answer ''answer-x'') guest_tab = guest_tab \<and>
   map_option calls (gameConnection (connectToGame browser_ok buffered_guest)) =
     Some [SetRemoteDescription ''offer-sdp'', CreateAnswer, SetLocalDescription ''answer-sdp'',
           SocketEmit (AnswerSignal ''answer-sdp'' (Some ''peer-a'')),
           AddIceCandidate ''c1'', AddIceCandidate ''c2''] \<and>
   pendingOffer (connectToGame browser_ok buffered_guest) = None \<and>
   pendingCandidates (connectToGame browser_ok buffered_guest) = []"
proof -
  have g: "gameConnection guest_tab = None" and g': "gameConnection buffered_guest = None"
    by (simp_all add: buffered_guest_eq guest_tab_eq new_manager_def)
  have o: "\<not> no_opponent (m_opponentId buffered_guest)"
    by (simp add: buffered_guest_eq guest_tab_eq no_opponent_def)
  note t = buffered_offer_and_candidates_replayed_answer_dropped
  from t [OF g, of browser_ok "''offer-sdp''" "''c1''"]
  have a: "handleSessionSignal browser_ok (Offer ''offer-sdp'') guest_tab =
      guest_tab\<lparr>pendingOffer := Some ''offer-sdp''\<rparr>"
    and b: "handleSessionSignal browser_ok (IceCandidate ''c1'') guest_tab =
      guest_tab\<lparr>pendingCandidates := [''c1'']\<rparr>"
    by (simp_all add: guest_tab_eq new_manager_def)
  from t [OF g, of browser_ok "''answer-x''" "''c1''"]
  have c: "handleSessionSignal browser_ok (Answer ''answer-x'') guest_tab = guest_tab"
    by simp
  from t [OF g', of browser_ok "''offer-sdp''" "''c1''"] o
  have "connectToGame browser_ok buffered_guest =
      buffered_guest\<lparr>gameConnection :=
         Some (handleCandidates browser_ok [''c1'', ''c2'']
           (snd (handleOffer browser_ok ''offer-sdp''
              (initialize browser_ok False (Some ''peer-a'') new_connection)))),
        pendingOffer := None, pendingCandidates := []\<rparr>"
    by (simp add: buffered_guest_eq guest_tab_eq new_manager_def)
  then have d: "map_option calls (gameConnection (connectToGame browser_ok buffered_guest)) =
     Some [SetRemoteDescription ''offer-sdp'', CreateAnswer, SetLocalDescription ''answer-sdp'',
           SocketEmit (AnswerSignal ''answer-sdp'' (Some ''peer-a'')),
           AddIceCandidate ''c1'', AddIceCandidate ''c2'']"
    and e: "pendingOffer (connectToGame browser_ok buffered_guest) = None"
    and f: "pendingCandidates (connectToGame browser_ok buffered_guest) = []"
    by (simp_all add: initialize_def createPeerConnection_def new_connection_def handleOffer_def
        handleCandidate_def flushPendingRemoteCandidates_def flushLoop_Nil
        browser_ok_def pc_defs Let_def)
  from a b c d e f show ?thesis by (intro conjI)
qed

text \<open>
  Counterexample to C10 as stated ("both replayed"): an offer reaches the waiting host
  peer-a, an initiator without a session, and is buffered. When the host accepts peer-b
  and \<open>connectToGame\<close> creates the session, the session only produces the host's own
  offer; it has no remote description, and the buffered offer is still in
  \<open>pendingOffer\<close>.
\<close>

theorem initiator_keeps_buffered_offer_unapplied:
  "gameConnection (snd waiting_host) = None \<and>
   m_isInitiator (snd waiting_host) \<and>
   pendingOffer (handleSessionSignal browser_ok (Offer ''offer-x'') (snd waiting_host)) =
     Some ''offer-x'' \<and>
   matchmakingComplete (snd host_with_offer) \<and>
   m_opponentId (snd host_with_offer) = Some ''peer-b'' \<and>
   map_option calls (gameConnection (snd host_with_offer)) =
     Some [CreateOffer, SetLocalDescription ''offer-sdp'',
           SocketEmit (OfferSignal ''offer-sdp'' (Some ''peer-b''))] \<and>
   map_option (map_option remoteDescription \<circ> peerConnection)
       (gameConnection (snd host_with_offer)) = Some (Some None) \<and>
   pendingOffer (snd host_with_offer) = Some ''offer-x''"
  by (simp add: host_with_offer_def waiting_host_eq handleSignalingMessage_def
      handleSessionSignal_def join_request_from_def updatePeerStatus_def
      emitSignalingMessage_def emitMatchFound_def connectToGame_def
      initializeGameConnection_def replayOffer_def replayCandidates_def no_opponent_def
      initialize_def createPeerConnection_def createDataChannels_def createAndSendOffer_def
      new_connection_def browser_ok_def pc_defs new_manager_def host_entry_def Let_def)

end
